theory Spec2Isabelle
  imports Complex_Main "HOL-Library.Sublist"
begin

section \<open>JavaScript numbers\<close>

text \<open>
  A JavaScript number is an IEEE-754 binary64 value. The finite values are modelled as
  reals, and every arithmetic operation returns its exact result rounded to the nearest
  value with a 53-bit significand, ties to even (\<open>fl\<close>). The exponent range is left
  unbounded: overflow to Infinity, subnormal numbers and NaN are not modelled; none of
  them is reachable from the word counts, percentages and scores this program computes
  with.
\<close>

definition rne :: "real \<Rightarrow> int" where
  "rne x = (let f = \<lfloor>x\<rfloor>; d = x - of_int f in
     if d < 1/2 then f else if 1/2 < d then f + 1
     else if even f then f else f + 1)"

definition fl :: "real \<Rightarrow> real" where
  "fl x = (if x = 0 then 0 else
     let e = \<lfloor>log 2 \<bar>x\<bar>\<rfloor> - 52 in
       of_int (rne (x / 2 powr of_int e)) * 2 powr of_int e)"

definition js_add :: "real \<Rightarrow> real \<Rightarrow> real" where
  "js_add a b = fl (a + b)"

definition js_sub :: "real \<Rightarrow> real \<Rightarrow> real" where
  "js_sub a b = fl (a - b)"

definition js_mul :: "real \<Rightarrow> real \<Rightarrow> real" where
  "js_mul a b = fl (a * b)"

text \<open>
  A division by zero gives NaN or an infinity, which are not among the modelled values:
  the quotient by 0 is left unspecified.
\<close>

definition js_div :: "real \<Rightarrow> real \<Rightarrow> real" where
  "js_div a b = (if b = 0 then undefined else fl (a / b))"

definition js_sqrt :: "real \<Rightarrow> real" where
  "js_sqrt a = fl (sqrt a)"

text \<open>A decimal literal of the source (\<open>0.95\<close>) denotes the nearest binary64 value.\<close>

definition js_lit :: "real \<Rightarrow> real" where
  "js_lit x = fl x"

text \<open>The unit roundoff of binary64: half the distance between 1 and the next number.\<close>

definition unit_roundoff :: real where
  "unit_roundoff = 1 / 2 ^ 53"

section \<open>JavaScript strings and arrays\<close>

text \<open>
  Strings are lists of 8-bit characters: the model covers text in Latin-1, where a
  character is one UTF-16 code unit below 256 and \<open>length\<close> is the JavaScript
  \<open>length\<close>. The class \<open>\w\<close> of a regular expression is ASCII only;
  \<open>trim\<close> strips the white space and the line terminators, among them the no-break
  space (160); \<open>toLowerCase\<close> maps the capital letters of Latin-1 (192 to 222 except
  the multiplication sign 215) as well as \<open>A\<close> to \<open>Z\<close>.
\<close>

definition is_word_char :: "char \<Rightarrow> bool" where
  "is_word_char c = (let n = (of_char c :: nat) in
     (48 \<le> n \<and> n \<le> 57) \<or> (65 \<le> n \<and> n \<le> 90) \<or> n = 95 \<or> (97 \<le> n \<and> n \<le> 122))"

definition is_space :: "char \<Rightarrow> bool" where
  "is_space c = (let n = (of_char c :: nat) in (9 \<le> n \<and> n \<le> 13) \<or> n = 32 \<or> n = 160)"

definition lower_char :: "char \<Rightarrow> char" where
  "lower_char c = (let n = (of_char c :: nat) in
     if (65 \<le> n \<and> n \<le> 90) \<or> (192 \<le> n \<and> n \<le> 222 \<and> n \<noteq> 215)
     then char_of (n + 32) else c)"

definition toLowerCase :: "string \<Rightarrow> string" where
  "toLowerCase s = map lower_char s"

definition trim :: "string \<Rightarrow> string" where
  "trim s = rev (dropWhile is_space (rev (dropWhile is_space s)))"

text \<open>\<open>s.includes(t)\<close>: \<open>t\<close> occurs in \<open>s\<close> as a contiguous substring.\<close>

fun starts_with :: "string \<Rightarrow> string \<Rightarrow> bool" where
  "starts_with s [] = True"
| "starts_with [] (t # ts) = False"
| "starts_with (c # cs) (t # ts) = (c = t \<and> starts_with cs ts)"

fun includes_str :: "string \<Rightarrow> string \<Rightarrow> bool" where
  "includes_str [] t = (t = [])"
| "includes_str (c # cs) t = (starts_with (c # cs) t \<or> includes_str cs t)"

text \<open>
  \<open>s.split(/[...]+/)\<close>: the pieces between the maximal runs of separator characters.
  A run at the start or at the end of the string leaves an empty piece there, and the
  empty string splits into one empty piece.
\<close>

function split_plus :: "(char \<Rightarrow> bool) \<Rightarrow> string \<Rightarrow> string list" where
  "split_plus sep s =
     (let piece = takeWhile (\<lambda>c. \<not> sep c) s; rest = dropWhile (\<lambda>c. \<not> sep c) s
      in if rest = [] then [piece] else piece # split_plus sep (dropWhile sep rest))"
  by pat_completeness auto
termination
proof (relation "measure (\<lambda>(sep, s). length s)", goal_cases)
  case 1
  show ?case by simp
next
  case (2 sep s piece rest)
  have a: "length (dropWhile sep rest) \<le> length rest" by (rule length_dropWhile_le)
  have b: "length rest \<le> length s" using 2(2) by (simp add: length_dropWhile_le)
  have "rest \<noteq> []" using 2(3) .
  then have "sep (hd rest)" using 2(2) hd_dropWhile by (metis (mono_tags, lifting))
  then have "length (dropWhile sep rest) < length rest" using \<open>rest \<noteq> []\<close>
    by (cases rest) (auto simp: le_imp_less_Suc length_dropWhile_le)
  then show ?case using b by simp
qed

text \<open>\<open>s.split(c)\<close> for a one-character separator: every occurrence separates.\<close>

fun split_char :: "char \<Rightarrow> string \<Rightarrow> string \<Rightarrow> string list" where
  "split_char sep cur [] = [cur]"
| "split_char sep cur (c # cs) =
     (if c = sep then cur # split_char sep [] cs else split_char sep (cur @ [c]) cs)"

definition split_on :: "char \<Rightarrow> string \<Rightarrow> string list" where
  "split_on sep s = split_char sep [] s"

fun join :: "string \<Rightarrow> string list \<Rightarrow> string" where
  "join sep [] = []"
| "join sep [x] = x"
| "join sep (x # y # ys) = x @ sep @ join sep (y # ys)"

text \<open>
  \<open>xs.slice(start)\<close> and \<open>xs.slice(0, end)\<close> for integer arguments: a negative index
  counts from the end, and \<open>-0\<close> is \<open>0\<close>.
\<close>

definition slice_from :: "int \<Rightarrow> 'a list \<Rightarrow> 'a list" where
  "slice_from start xs =
     (if start < 0 then drop (nat (int (length xs) + start)) xs else drop (nat start) xs)"

definition slice_to :: "int \<Rightarrow> 'a list \<Rightarrow> 'a list" where
  "slice_to end xs =
     (if end < 0 then take (nat (int (length xs) + end)) xs else take (nat end) xs)"

fun digits :: "nat \<Rightarrow> string" where
  "digits n = (if n < 10 then [char_of (48 + n)] else digits (n div 10) @ [char_of (48 + n mod 10)])"

text \<open>A \<open>Map\<close> keeps its keys in insertion order; \<open>set\<close> on a present key replaces the value in place.\<close>

fun map_set :: "'k \<Rightarrow> 'v \<Rightarrow> ('k \<times> 'v) list \<Rightarrow> ('k \<times> 'v) list" where
  "map_set k v [] = [(k, v)]"
| "map_set k v ((k', v') # m) = (if k = k' then (k, v) # m else (k', v') # map_set k v m)"

declare split_plus.simps [simp del]

section \<open>Embedding and chunking (\<open>srv/lib/agentic-rag.js\<close>)\<close>

text \<open>The separator class \<open>[.!?]\<close> of the sentence split.\<close>

definition sentence_end :: "char \<Rightarrow> bool" where
  "sentence_end c = (c \<in> set ''.!?'')"

definition sentences :: "string \<Rightarrow> string list" where
  "sentences text = filter (\<lambda>s. length (trim s) > 0) (split_plus sentence_end text)"

text \<open>
  One round of the loop of \<open>splitText\<close>, on the pair of the chunks pushed so far and
  \<open>currentChunk\<close>.
\<close>

definition overlapWords :: "int \<Rightarrow> string \<Rightarrow> string list" where
  "overlapWords chunkOverlap currentChunk =
     slice_from (- (chunkOverlap div 10)) (split_on CHR '' '' currentChunk)"

definition closes :: "int \<Rightarrow> string \<Rightarrow> string \<Rightarrow> bool" where
  "closes chunkSize currentChunk sentence =
     (int (length (currentChunk @ sentence)) > chunkSize \<and> length currentChunk > 0)"

definition splitStep :: "int \<Rightarrow> int \<Rightarrow> string list \<times> string \<Rightarrow> string \<Rightarrow> string list \<times> string" where
  "splitStep chunkSize chunkOverlap st sentence =
     (let chunks = fst st; currentChunk = snd st in
      if closes chunkSize currentChunk sentence
      then (chunks @ [trim currentChunk],
            join '' '' (overlapWords chunkOverlap currentChunk) @ '' '' @ sentence)
      else (chunks, currentChunk @ (if currentChunk \<noteq> [] then '' '' else []) @ sentence))"

definition splitText :: "string \<Rightarrow> int \<Rightarrow> int \<Rightarrow> string list" where
  "splitText text chunkSize chunkOverlap =
     (let st = foldl (splitStep chunkSize chunkOverlap) ([], []) (sentences text);
          chunks = fst st; currentChunk = snd st
      in if trim currentChunk \<noteq> [] then chunks @ [trim currentChunk] else chunks)"

definition sustainabilityTerms :: "string list" where
  "sustainabilityTerms =
     [''packaging'', ''emission'', ''carbon'', ''recycl'', ''sustain'', ''environment'',
      ''plastic'', ''bottle'', ''aluminum'', ''glass'', ''transport'', ''energy'',
      ''target'', ''goal'', ''reduction'', ''footprint'', ''circular'', ''regulation'']"

definition createSimpleEmbedding :: "string \<Rightarrow> real list" where
  "createSimpleEmbedding text =
     (let words = filter (\<lambda>w. length w > 2)
                    (split_plus (\<lambda>c. \<not> is_word_char c) (toLowerCase text))
      in map (\<lambda>term. real (length (filter (\<lambda>word. includes_str word term) words)))
           sustainabilityTerms)"

section \<open>Similarity index (\<open>srv/lib/agentic-rag.js\<close>)\<close>

text \<open>The loop of \<open>cosineSimilarity\<close> on \<open>(dotProduct, normA, normB)\<close>.\<close>

fun cosineLoop :: "real list \<Rightarrow> real list \<Rightarrow> real \<times> real \<times> real \<Rightarrow> real \<times> real \<times> real" where
  "cosineLoop (a # as) (b # bs) (dotProduct, normA, normB) =
     cosineLoop as bs (js_add dotProduct (js_mul a b), js_add normA (js_mul a a),
                       js_add normB (js_mul b b))"
| "cosineLoop as bs acc = acc"

definition cosineSimilarity :: "real list \<Rightarrow> real list \<Rightarrow> real" where
  "cosineSimilarity vecA vecB =
     (if length vecA \<noteq> length vecB then 0
      else case cosineLoop vecA vecB (0, 0, 0) of (dotProduct, normA, normB) \<Rightarrow>
        if normA = 0 \<or> normB = 0 then 0
        else js_div dotProduct (js_mul (js_sqrt normA) (js_sqrt normB)))"

text \<open>
  The cosine of the angle between two vectors in exact arithmetic, as the specification
  reads it: the quantity that \<open>cosineSimilarity\<close> approximates.
\<close>

definition dot :: "real list \<Rightarrow> real list \<Rightarrow> real" where
  "dot xs ys = (\<Sum>(x, y)\<leftarrow>zip xs ys. x * y)"

definition cosine_exact :: "real list \<Rightarrow> real list \<Rightarrow> real" where
  "cosine_exact xs ys = dot xs ys / (sqrt (dot xs xs) * sqrt (dot ys ys))"

record chunk_metadata =
  source :: string
  chunk :: nat

record stored_doc =
  content :: string
  embedding :: "real list"
  metadata :: chunk_metadata

record similarity_entry =
  entry_id :: string
  similarity :: real
  entry_content :: string
  entry_metadata :: chunk_metadata

record knowledge =
  ctx :: string
  sources :: "chunk_metadata list"
  confidence :: real

text \<open>
  The state of an \<open>AgenticRAGSystem\<close>: \<open>knowledgeBase\<close> maps a file name to its text,
  \<open>vectorStore\<close> maps a chunk id to its document, both in insertion order.
\<close>

record rag_state =
  knowledgeBase :: "(string \<times> string) list"
  vectorStore :: "(string \<times> stored_doc) list"
  documentChunks :: "(string \<times> stored_doc) list"

text \<open>
  What the process environment provides: the MD5 digest (in hexadecimal) as a function,
  and the integers that \<open>parseInt\<close> reads from the environment variables (\<open>None\<close> when
  the variable is unset or not a number).
\<close>

record env =
  md5 :: "string \<Rightarrow> string"
  RAG_CHUNK_SIZE :: "int option"
  RAG_CHUNK_OVERLAP :: "int option"

text \<open>\<open>parseInt(v) || d\<close>: the default replaces NaN and 0.\<close>

definition or_default :: "int option \<Rightarrow> int \<Rightarrow> int" where
  "or_default v d = (case v of None \<Rightarrow> d | Some n \<Rightarrow> if n = 0 then d else n)"

definition storeChunk :: "env \<Rightarrow> string \<Rightarrow> rag_state \<Rightarrow> nat \<times> string \<Rightarrow> rag_state" where
  "storeChunk ev filename st ic =
     (let index = fst ic; chunkText = snd ic;
          chunkId = md5 ev (filename @ ''-'' @ digits index @ ''-'' @ chunkText);
          doc = \<lparr>content = chunkText, embedding = createSimpleEmbedding chunkText,
                 metadata = \<lparr>source = filename, chunk = index\<rparr>\<rparr>
      in st\<lparr>documentChunks := documentChunks st @ [(chunkId, doc)],
            vectorStore := map_set chunkId doc (vectorStore st)\<rparr>)"

definition initializeVectorStore :: "env \<Rightarrow> rag_state \<Rightarrow> rag_state" where
  "initializeVectorStore ev st =
     (let chunkSize = or_default (RAG_CHUNK_SIZE ev) 1000;
          chunkOverlap = or_default (RAG_CHUNK_OVERLAP ev) 200
      in foldl (\<lambda>s fc. foldl (storeChunk ev (fst fc)) s
                          (enumerate 0 (splitText (snd fc) chunkSize chunkOverlap)))
           (st\<lparr>documentChunks := []\<rparr>) (knowledgeBase st))"

text \<open>The mean of a non-empty list of numbers, as the program computes it.\<close>

definition js_mean :: "real list \<Rightarrow> real" where
  "js_mean xs = js_div (foldl js_add 0 xs) (real (length xs))"

definition calculateConfidence :: "similarity_entry list \<Rightarrow> real" where
  "calculateConfidence results =
     (if length results = 0 then 0
      else let avgSimilarity =
                 js_div (foldl (\<lambda>sum r. js_add sum (similarity r)) 0 results)
                        (real (length results))
           in min (js_lit 0.95) (max (js_lit 0.1) avgSimilarity))"

text \<open>
  The entries that \<open>queryKnowledge\<close> computes, one per stored chunk in store order, and
  their ranking: \<open>Array.prototype.sort\<close> is stable, and the comparator
  \<open>(a, b) => b.similarity - a.similarity\<close> orders by decreasing similarity.
\<close>

definition similarities :: "rag_state \<Rightarrow> string \<Rightarrow> similarity_entry list" where
  "similarities st query =
     (let queryEmbedding = createSimpleEmbedding query
      in map (\<lambda>(id, doc). \<lparr>entry_id = id,
                similarity = cosineSimilarity queryEmbedding (embedding doc),
                entry_content = content doc, entry_metadata = metadata doc\<rparr>)
           (vectorStore st))"

definition ranked :: "similarity_entry list \<Rightarrow> similarity_entry list" where
  "ranked sims = sort_key (\<lambda>r. - similarity r) sims"

text \<open>\<open>if (this.vectorStore.size === 0) await this.initializeVectorStore()\<close>\<close>

definition ensureStore :: "env \<Rightarrow> rag_state \<Rightarrow> rag_state" where
  "ensureStore ev st = (if length (vectorStore st) = 0 then initializeVectorStore ev st else st)"

text \<open>The result list of a query: the ranking, truncated by \<open>slice(0, topK)\<close>.\<close>

definition queryResults :: "env \<Rightarrow> rag_state \<Rightarrow> string \<Rightarrow> int \<Rightarrow> similarity_entry list" where
  "queryResults ev st query topK = slice_to topK (ranked (similarities (ensureStore ev st) query))"

definition queryKnowledge :: "env \<Rightarrow> rag_state \<Rightarrow> string \<Rightarrow> int \<Rightarrow> rag_state \<times> knowledge" where
  "queryKnowledge ev st query topK =
     (let results = queryResults ev st query topK
      in (ensureStore ev st,
          \<lparr>ctx = join [CHR 0x0A, CHR 0x0A] (map entry_content results),
           sources = map entry_metadata results,
           confidence = calculateConfidence results\<rparr>))"

section \<open>Agent registry and query orchestrator (\<open>srv/lib/agentic-rag.js\<close>)\<close>

datatype js_error = Error string | TypeError string

datatype agent = Packaging | Emission | SupplyChain | Regulatory

definition specialization :: "agent \<Rightarrow> string" where
  "specialization a = (case a of Packaging \<Rightarrow> ''packaging'' | Emission \<Rightarrow> ''emission''
     | SupplyChain \<Rightarrow> ''supplyChain'' | Regulatory \<Rightarrow> ''regulatory'')"

text \<open>
  Reading \<open>obj[key]\<close> on an object literal finds the object's own property, else the
  member of \<open>Object.prototype\<close> of that name (a function or an object: a truthy value
  that is no agent), else \<open>undefined\<close>.
\<close>

datatype 'a property = Own 'a | Inherited string | Undefined

definition object_prototype_keys :: "string list" where
  "object_prototype_keys =
     [''constructor'', ''__defineGetter__'', ''__defineSetter__'', ''hasOwnProperty'',
      ''__lookupGetter__'', ''__lookupSetter__'', ''isPrototypeOf'', ''propertyIsEnumerable'',
      ''toString'', ''valueOf'', ''__proto__'', ''toLocaleString'']"

definition get_property :: "(string \<times> 'a) list \<Rightarrow> string \<Rightarrow> 'a property" where
  "get_property obj key =
     (case map_of obj key of Some v \<Rightarrow> Own v
      | None \<Rightarrow> if key \<in> set object_prototype_keys then Inherited key else Undefined)"

definition agents :: "(string \<times> agent) list" where
  "agents = [(''packaging'', Packaging), (''emission'', Emission),
             (''supplyChain'', SupplyChain), (''regulatory'', Regulatory)]"

definition agentMap :: "(string \<times> agent) list" where
  "agentMap = [(''packaging'', Packaging), (''emissions'', Emission),
               (''supply_chain'', SupplyChain), (''regulatory'', Regulatory)]"

text \<open>\<open>agentMap[analysisType] || this.agents.packaging\<close>\<close>

definition getAgentForAnalysis :: "string \<Rightarrow> agent property" where
  "getAgentForAnalysis analysisType =
     (case get_property agentMap analysisType of Undefined \<Rightarrow> Own Packaging | p \<Rightarrow> p)"

definition buildPrompt :: "string \<Rightarrow> string \<Rightarrow> string" where
  "buildPrompt query context =
     [CHR 0x0A] @ ''Context Information about CCEP Sustainability:'' @ [CHR 0x0A]
     @ context @ [CHR 0x0A]
     @ [CHR 0x0A]
     @ ''User Query: '' @ query @ [CHR 0x0A]
     @ [CHR 0x0A]
     @ ''Please provide a comprehensive answer based on the context information above. '' @ [CHR 0x0A]
     @ ''Focus on CCEP'' @ [CHR 0x27] @ ''s sustainability goals:'' @ [CHR 0x0A]
     @ ''- 30% GHG emission reduction by 2030'' @ [CHR 0x0A]
     @ ''- 100% recyclable packaging by 2025  '' @ [CHR 0x0A]
     @ ''- 50% recycled content in PET bottles by 2025'' @ [CHR 0x0A]
     @ ''- Packaging accounts for 38% of carbon footprint'' @ [CHR 0x0A]
     @ ''- Collection rates: Europe 76.7%, Asia Pacific 53%'' @ [CHR 0x0A]
     @ [CHR 0x0A]
     @ ''Provide actionable insights and specific recommendations.'' @ [CHR 0x0A]"

text \<open>
  The language model is a collaborator outside the program:
  \<open>generateContent\<close> is called with the system prompt of an agent (a constant text of
  the agent's class, for which the agent stands here) and the user prompt, and the
  program awaits \<open>result.response\<close> and reads \<open>response.text()\<close> and the token count.
  Any failure on the way (a timeout, a provider error, a malformed response) is the
  exception that the call raises.
\<close>

type_synonym llm = "agent \<Rightarrow> string \<Rightarrow> js_error + string \<times> nat"

record agent_response =
  answer :: string
  agent_confidence :: real
  tokensUsed :: nat

definition agentProcessQuery :: "llm \<Rightarrow> agent \<Rightarrow> string \<Rightarrow> knowledge \<Rightarrow> js_error + agent_response" where
  "agentProcessQuery generateContent a query kn =
     (let prompt = buildPrompt query (ctx kn) in
      case generateContent a prompt of
        Inl error \<Rightarrow> Inl error
      | Inr res \<Rightarrow> Inr \<lparr>answer = fst res, agent_confidence = confidence kn, tokensUsed = snd res\<rparr>)"

text \<open>What a call reads from the system clock.\<close>

record clock =
  nowMs :: real
  fullYear :: int
  isoString :: string

text \<open>
  A call that evaluates \<open>new Date()\<close> more than once takes as many readings, and the
  clock may have moved between them: \<open>readings i\<close> is what the evaluation number \<open>i\<close>
  of the call (counted from 0) reads.
\<close>

type_synonym clock_readings = "nat \<Rightarrow> clock"

record query_response =
  response :: string
  response_confidence :: real
  response_sources :: "chunk_metadata list"
  agentType :: string
  timestamp :: string

text \<open>
  \<open>AgenticRAGSystem.processQuery\<close>. The state is returned as well, since
  \<open>queryKnowledge\<close> may have built the vector store. An inherited member of
  \<open>Object.prototype\<close> passes the test \<open>!agent\<close>, and the call of its \<open>processQuery\<close>,
  which it does not have, raises a \<open>TypeError\<close>.
\<close>

definition processQuery ::
  "env \<Rightarrow> llm \<Rightarrow> clock \<Rightarrow> rag_state \<Rightarrow> string \<Rightarrow> string \<Rightarrow> rag_state \<times> (js_error + query_response)" where
  "processQuery ev generateContent clk st query agentTypeHint =
     (case get_property agents agentTypeHint of
        Undefined \<Rightarrow> (st, Inl (Error (''Unknown agent type: '' @ agentTypeHint)))
      | Inherited m \<Rightarrow>
          (fst (queryKnowledge ev st query 5), Inl (TypeError ''agent.processQuery is not a function''))
      | Own a \<Rightarrow>
          (let kn = queryKnowledge ev st query 5 in
           case agentProcessQuery generateContent a query (snd kn) of
             Inl error \<Rightarrow> (fst kn, Inl error)
           | Inr res \<Rightarrow>
               (fst kn, Inr \<lparr>response = answer res, response_confidence = agent_confidence res,
                              response_sources = sources (snd kn), agentType = agentTypeHint,
                              timestamp = isoString clk\<rparr>)))"



section \<open>JavaScript objects and the host\<close>

text \<open>
  The records that the agents analyse and the results that they build are plain
  JavaScript objects: lists of properties in insertion order. The model covers records
  whose fields, when present, hold values of the type the service's entity gives the
  field: \<open>num\<close> and \<open>str\<close> read a number and a string and are left unspecified on
  other values (where JavaScript would coerce, or raise a \<open>TypeError\<close>).
\<close>

datatype jsval =
    JUndefined
  | JNull
  | JBool bool
  | JNum real
  | JStr string
  | JArr "jsval list"
  | JObj "(string \<times> jsval) list"

type_synonym jsobject = "(string \<times> jsval) list"

definition field :: "jsobject \<Rightarrow> string \<Rightarrow> jsval" where
  "field obj key = (case map_of obj key of Some v \<Rightarrow> v | None \<Rightarrow> JUndefined)"

definition get_prop :: "jsval \<Rightarrow> string \<Rightarrow> jsval" where
  "get_prop v key = (case v of JObj obj \<Rightarrow> field obj key | _ \<Rightarrow> JUndefined)"

definition hasOwnProperty :: "jsobject \<Rightarrow> string \<Rightarrow> bool" where
  "hasOwnProperty obj key = (key \<in> fst ` set obj)"

fun truthy :: "jsval \<Rightarrow> bool" where
  "truthy JUndefined = False"
| "truthy JNull = False"
| "truthy (JBool b) = b"
| "truthy (JNum x) = (x \<noteq> 0)"
| "truthy (JStr s) = (s \<noteq> [])"
| "truthy (JArr xs) = True"
| "truthy (JObj obj) = True"

text \<open>\<open>a || b\<close>\<close>

definition or_else :: "jsval \<Rightarrow> jsval \<Rightarrow> jsval" where
  "or_else a b = (if truthy a then a else b)"

fun num :: "jsval \<Rightarrow> real" where
  "num (JNum x) = x"
| "num v = undefined"

fun str :: "jsval \<Rightarrow> string" where
  "str (JStr s) = s"
| "str v = undefined"

text \<open>
  What the JavaScript runtime provides and the model does not compute: the conversion
  of a number to a string (in a template literal, by \<open>toFixed\<close> and by
  \<open>toLocaleString\<close>) and the time value of a date string.
\<close>

record host =
  numToString :: "real \<Rightarrow> string"
  toFixed :: "real \<Rightarrow> nat \<Rightarrow> string"
  toLocaleString :: "real \<Rightarrow> string"
  dateParse :: "string \<Rightarrow> real"

text \<open>The string that a template literal \<open>`${v}`\<close> inserts for a value.\<close>

fun display :: "host \<Rightarrow> jsval \<Rightarrow> string" where
  "display h JUndefined = ''undefined''"
| "display h JNull = ''null''"
| "display h (JBool b) = (if b then ''true'' else ''false'')"
| "display h (JNum x) = numToString h x"
| "display h (JStr s) = s"
| "display h (JArr xs) = join '','' (map (display h) xs)"
| "display h (JObj obj) = ''[object Object]''"

section \<open>The base agent (\<open>srv/lib/agents/base-agent.js\<close>)\<close>

datatype log_entry = Info string | Warn string | LogError string js_error

text \<open>
  \<open>validateData\<close> on an object: \<open>every\<close> stops at the first missing field, after the
  warning that names it. The warnings are returned with the result.
\<close>

fun validateFields :: "jsobject \<Rightarrow> string list \<Rightarrow> bool \<times> log_entry list" where
  "validateFields data [] = (True, [])"
| "validateFields data (f # fs) =
     (let hasField = (hasOwnProperty data f \<and> field data f \<noteq> JNull \<and> field data f \<noteq> JUndefined)
      in if hasField then validateFields data fs
         else (False, [Warn (''Missing required field: '' @ f)]))"

definition validateData :: "jsobject \<Rightarrow> string list \<Rightarrow> bool \<times> log_entry list" where
  "validateData data requiredFields = validateFields data requiredFields"

definition is_digit :: "char \<Rightarrow> bool" where
  "is_digit c = (let n = (of_char c :: nat) in 48 \<le> n \<and> n \<le> 57)"

text \<open>A sequence of character classes matches somewhere in the string.\<close>

fun matches_here :: "(char \<Rightarrow> bool) list \<Rightarrow> string \<Rightarrow> bool" where
  "matches_here [] s = True"
| "matches_here (p # ps) [] = False"
| "matches_here (p # ps) (c # cs) = (p c \<and> matches_here ps cs)"

fun matches_somewhere :: "(char \<Rightarrow> bool) list \<Rightarrow> string \<Rightarrow> bool" where
  "matches_somewhere ps [] = matches_here ps []"
| "matches_somewhere ps (c # cs) = (matches_here ps (c # cs) \<or> matches_somewhere ps cs)"

text \<open>
  \<open>/\d+%|\d+\.\d+|\$\d+|target|goal/i.test(response)\<close>: a run of digits before \<open>%\<close>
  ends in one digit before \<open>%\<close>, and so for the other alternatives.
\<close>

definition hasMetrics :: "string \<Rightarrow> bool" where
  "hasMetrics responseText =
     (matches_somewhere [is_digit, (\<lambda>c. c = CHR ''%'')] responseText
      \<or> matches_somewhere [is_digit, (\<lambda>c. c = CHR ''.''), is_digit] responseText
      \<or> matches_somewhere [(\<lambda>c. c = CHR ''$''), is_digit] responseText
      \<or> includes_str (toLowerCase responseText) ''target''
      \<or> includes_str (toLowerCase responseText) ''goal'')"

definition BaseAgent_calculateConfidence :: "string \<Rightarrow> jsobject \<Rightarrow> string \<Rightarrow> real" where
  "BaseAgent_calculateConfidence specialization_name data responseText =
     (let c0 = 0.5;
          c1 = (if length data > 0 then js_add c0 (js_lit 0.1) else c0);
          c2 = (if responseText \<noteq> [] \<and> length responseText > 100 then js_add c1 (js_lit 0.1) else c1);
          c3 = (if hasMetrics responseText then js_add c2 (js_lit 0.2) else c2);
          c4 = (if specialization_name \<noteq> ''general'' then js_add c3 (js_lit 0.1) else c3)
      in min (js_lit 0.95) c4)"

definition some_includes :: "string list \<Rightarrow> string \<Rightarrow> bool" where
  "some_includes keywords s = (\<exists>keyword\<in>set keywords. includes_str s keyword)"

definition getPriority :: "string \<Rightarrow> string" where
  "getPriority recommendation =
     (let s = toLowerCase recommendation in
      if some_includes [''urgent'', ''critical'', ''immediate'', ''compliance'', ''risk''] s then ''High''
      else if some_includes [''improve'', ''optimize'', ''enhance'', ''target''] s then ''Medium''
      else ''Low'')"

definition estimateImpact :: "string \<Rightarrow> string" where
  "estimateImpact recommendation =
     (let s = toLowerCase recommendation in
      if some_includes [''reduce'', ''increase'', ''target'', ''goal'', ''significant''] s then ''High''
      else ''Medium'')"

definition estimateTimeframe :: "string \<Rightarrow> string" where
  "estimateTimeframe recommendation =
     (let s = toLowerCase recommendation in
      if includes_str s ''immediate'' \<or> includes_str s ''urgent'' then ''1-3 months''
      else if includes_str s ''short'' \<or> includes_str s ''quick'' then ''3-6 months''
      else if includes_str s ''long'' \<or> includes_str s ''strategic'' then ''12+ months''
      else ''6-12 months'')"

definition formatRecommendations :: "string \<Rightarrow> string list \<Rightarrow> jsval list" where
  "formatRecommendations specialization_name recommendations =
     map (\<lambda>(index, rec).
            JObj [(''id'', JStr (specialization_name @ ''_rec_'' @ digits (index + 1))),
                  (''recommendation'', JStr rec),
                  (''priority'', JStr (getPriority rec)),
                  (''category'', JStr specialization_name),
                  (''estimatedImpact'', JStr (estimateImpact rec)),
                  (''timeframe'', JStr (estimateTimeframe rec))])
         (enumerate 0 recommendations)"

text \<open>
  The analyses build their insights and their analysis object by pushing strings and
  assigning properties, one statement after the other.
\<close>

type_synonym analysis = "string list \<times> jsobject"

definition push :: "string \<Rightarrow> analysis \<Rightarrow> analysis" where
  "push s a = (fst a @ [s], snd a)"

definition assign :: "string \<Rightarrow> jsval \<Rightarrow> analysis \<Rightarrow> analysis" where
  "assign key v a = (fst a, map_set key v (snd a))"

section \<open>The emission agent (\<open>srv/lib/agents/emission-agent.js\<close>)\<close>

text \<open>
  \<open>toUpperCase\<close> is applied to the names of the scopes only. The small letters of
  Latin-1 map to their capitals; the three characters whose capital is outside Latin-1
  or longer than one character (181, 223, 255) do not occur in those names and are left
  as they are.
\<close>

definition toUpperCase :: "string \<Rightarrow> string" where
  "toUpperCase s = map (\<lambda>c. let n = (of_char c :: nat) in
                              if (97 \<le> n \<and> n \<le> 122) \<or> (224 \<le> n \<and> n \<le> 254 \<and> n \<noteq> 247)
                              then char_of (n - 32) else c) s"

text \<open>\<open>emissionTargets\<close>: the overall target, the targets of the scopes, the regions.\<close>

definition reductionTarget :: real where
  "reductionTarget = 30"

definition baselineYear :: int where
  "baselineYear = 2020"

definition targetYear :: int where
  "targetYear = 2030"

definition scopeTargets :: "(string \<times> real) list" where
  "scopeTargets = [(''scope1'', 25), (''scope2'', 35), (''scope3'', 30)]"

definition regionalTargets :: "(string \<times> real \<times> real) list" where
  "regionalTargets = [(''Europe'', (32, js_lit 19.8)), (''Asia Pacific'', (28, 18.5))]"

text \<open>\<open>targets.scopes[scope]?.target || targets.overall.reductionTarget\<close>\<close>

definition scopeTargetOf :: "string \<Rightarrow> real" where
  "scopeTargetOf scope = (case get_property scopeTargets scope of Own t \<Rightarrow> t | _ \<Rightarrow> reductionTarget)"

definition determineScope :: "jsval \<Rightarrow> string" where
  "determineScope src =
     (if src \<in> JStr ` set [''Manufacturing'', ''Operations'', ''Water Treatment''] then ''scope1''
      else if src \<in> JStr ` set [''Energy Consumption'', ''Refrigeration''] then ''scope2''
      else if src \<in> JStr ` set [''Packaging'', ''Transportation'', ''Supply Chain'', ''SupplyChain'']
      then ''scope3''
      else ''scope3'')"

text \<open>\<open>((data.baseline - data.value) / data.baseline) * 100\<close>\<close>

definition reductionPercent :: "jsobject \<Rightarrow> real" where
  "reductionPercent data =
     js_mul (js_div (js_sub (num (field data ''baseline'')) (num (field data ''value'')))
                    (num (field data ''baseline''))) 100"

definition analyzeEmissionPerformance :: "host \<Rightarrow> jsobject \<Rightarrow> analysis" where
  "analyzeEmissionPerformance h data =
     (let src = display h (field data ''source'');
          scope = determineScope (field data ''source'');
          a0 = ([], []);
          a1 = (if truthy (field data ''baseline'') \<and> truthy (field data ''value'') then
                  (let reductionAchieved = reductionPercent data;
                       targetReduction = reductionTarget;
                       b = (if reductionAchieved \<ge> targetReduction then
                              assign ''performanceStatus'' (JStr ''Exceeding Target'')
                                (push (src @ '' emissions show '' @ toFixed h reductionAchieved 1
                                       @ ''% reduction, exceeding the '' @ numToString h targetReduction
                                       @ ''% target'') a0)
                            else
                              (let gap = js_sub targetReduction reductionAchieved in
                               assign ''performanceStatus'' (JStr ''Below Target'')
                                 (push (src @ '' emissions show '' @ toFixed h reductionAchieved 1
                                        @ ''% reduction, '' @ toFixed h gap 1 @ ''% short of ''
                                        @ numToString h targetReduction @ ''% target'') a0)))
                   in assign ''reductionAchieved'' (JNum reductionAchieved) b)
                else a0);
          scopeTarget = scopeTargetOf scope;
          a2 = assign ''scopeTarget'' (JNum scopeTarget)
                 (assign ''scope'' (JStr scope)
                    (push (src @ '' falls under '' @ toUpperCase scope @ '' with a ''
                           @ numToString h scopeTarget @ ''% reduction target'') a1));
          region = field data ''region'';
          regional = (case region of JStr r \<Rightarrow> get_property regionalTargets r | _ \<Rightarrow> Undefined);
          a3 = (if truthy region then
                  (case regional of
                     Own t \<Rightarrow>
                       assign ''regionalStatus''
                         (JStr (if snd t \<ge> fst t then ''On Track'' else ''Behind Target''))
                         (push (display h region @ '' region shows '' @ numToString h (snd t)
                                @ ''% progress toward '' @ numToString h (fst t) @ ''% target'') a2)
                   | Inherited m \<Rightarrow>
                       assign ''regionalStatus'' (JStr ''Behind Target'')
                         (push (display h region @ '' region shows undefined% progress toward undefined% target'') a2)
                   | Undefined \<Rightarrow> a2)
                else a2);
          a4 = (if truthy (field data ''value'') \<and> truthy (field data ''volume'') then
                  (let intensity = js_div (num (field data ''value'')) (num (field data ''volume'')) in
                   assign ''intensity'' (JNum intensity)
                     (push (''Emission intensity for '' @ src @ '' is '' @ toFixed h intensity 4 @ '' ''
                            @ display h (field data ''unit'') @ ''/unit'') a3))
                else a3);
          a5 = (if field data ''verified'' \<noteq> JUndefined then
                  (let verificationStatus =
                         (if truthy (field data ''verified'') then ''third-party verified''
                          else ''not yet verified'') in
                   assign ''verified'' (field data ''verified'')
                     (push (src @ '' emissions data is '' @ verificationStatus) a4))
                else a4)
      in a5)"

definition generateEmissionRecommendations :: "analysis \<Rightarrow> string list" where
  "generateEmissionRecommendations a =
     (let scopeSpecific = snd a in
      (if field scopeSpecific ''performanceStatus'' = JStr ''Below Target'' then
         [''Accelerate emission reduction initiatives to meet 2030 targets'',
          ''Implement additional carbon reduction projects'',
          ''Review and strengthen current reduction strategies'']
       else [])
      @ (if field scopeSpecific ''scope'' = JStr ''scope1'' then
           [''Improve energy efficiency in manufacturing operations'',
            ''Switch to renewable energy sources for direct operations'',
            ''Optimize combustion processes and reduce fuel consumption'']
         else if field scopeSpecific ''scope'' = JStr ''scope2'' then
           [''Transition to renewable electricity contracts'',
            ''Implement energy management systems'',
            ''Upgrade to energy-efficient equipment and lighting'']
         else if field scopeSpecific ''scope'' = JStr ''scope3'' then
           [''Engage suppliers on emission reduction commitments'',
            ''Optimize transportation and logistics networks'',
            ''Implement sustainable packaging strategies'']
         else [])
      @ (if field scopeSpecific ''regionalStatus'' = JStr ''Behind Target'' then
           [''Develop region-specific emission reduction roadmap'',
            ''Increase investment in regional clean technology'',
            ''Strengthen local partnerships for emission reduction'']
         else [])
      @ (if \<not> truthy (field scopeSpecific ''verified'') then
           [''Obtain third-party verification for emission data'',
            ''Implement robust monitoring and reporting systems'',
            ''Align with international standards (GHG Protocol, ISO 14064)'']
         else [])
      @ [''Invest in carbon capture and utilization technologies'',
         ''Explore nature-based carbon offset solutions'',
         ''Implement circular economy principles to reduce emissions''])"

definition calculateEmissionKPIs :: "clock \<Rightarrow> jsobject \<Rightarrow> jsobject" where
  "calculateEmissionKPIs clk data =
     (let k0 = [];
          k1 = (if truthy (field data ''baseline'') \<and> truthy (field data ''value'') then
                  (let reductionProgress = reductionPercent data in
                   map_set ''targetProgress''
                     (JNum (js_mul (js_div reductionProgress reductionTarget) 100))
                     (map_set ''reductionProgress'' (JNum reductionProgress) k0))
                else k0);
          k2 = (if truthy (field data ''value'') \<and> truthy (field data ''volume'') then
                  map_set ''emissionIntensity''
                    (JNum (js_div (num (field data ''value'')) (num (field data ''volume'')))) k1
                else k1);
          k3 = (if truthy (field data ''baseline'') \<and> truthy (field data ''value'') then
                  (let yearsElapsed = fullYear clk - baselineYear in
                   if yearsElapsed > 0 then
                     map_set ''annualReductionRate''
                       (JNum (js_div (reductionPercent data) (of_int yearsElapsed))) k2
                   else k2)
                else k2);
          k4 = (if truthy (field k3 ''targetProgress'') then
                  map_set ''targetAchievementScore''
                    (JNum (min 100 (max 0 (num (field k3 ''targetProgress''))))) k3
                else k3);
          scope = determineScope (field data ''source'');
          scopeTarget = scopeTargetOf scope;
          k5 = (if truthy (field k4 ''reductionProgress'') then
                  map_set ''carbonEfficiencyScore''
                    (JNum (js_mul (js_div (num (field k4 ''reductionProgress'')) scopeTarget) 100)) k4
                else k4)
      in k5)"

definition calculateEmissionProjections :: "clock \<Rightarrow> jsobject \<Rightarrow> jsobject" where
  "calculateEmissionProjections clk data =
     (let currentYear = fullYear clk;
          yearsToTarget = targetYear - currentYear
      in if truthy (field data ''baseline'') \<and> truthy (field data ''value'') \<and> yearsToTarget > 0 then
           (let currentReduction = reductionPercent data;
                targetReduction = reductionTarget;
                requiredAnnualReduction =
                  js_div (js_sub targetReduction currentReduction) (of_int yearsToTarget);
                conservative = max 1 (js_mul requiredAnnualReduction (js_lit 0.7))
            in [(''currentTrajectory'',
                   JObj [(''currentReduction'', JNum currentReduction),
                         (''targetReduction'', JNum targetReduction),
                         (''requiredAnnualReduction'', JNum requiredAnnualReduction),
                         (''onTrack'', JBool (requiredAnnualReduction \<le> 2))]),
                (''scenarios'',
                   JObj [(''conservative'',
                            JObj [(''annualReduction'', JNum conservative),
                                  (''finalReduction'',
                                     JNum (js_add currentReduction
                                             (js_mul conservative (of_int yearsToTarget))))]),
                         (''realistic'',
                            JObj [(''annualReduction'', JNum requiredAnnualReduction),
                                  (''finalReduction'', JNum targetReduction)]),
                         (''optimistic'',
                            JObj [(''annualReduction'', JNum (js_mul requiredAnnualReduction (js_lit 1.3))),
                                  (''finalReduction'',
                                     JNum (js_add currentReduction
                                             (js_mul (js_mul requiredAnnualReduction (js_lit 1.3))
                                                     (of_int yearsToTarget))))])])])
         else [])"

text \<open>
  \<open>generateInsights\<close>: the log entries written and the result, an exception or the
  insight object. The \<open>catch\<close> block logs the error and throws it again.
  \<open>calculateEmissionKPIs\<close> reads the clock when the record has a baseline and a value,
  \<open>calculateEmissionProjections\<close> reads it always, and the timestamp is the reading
  after these.
\<close>

definition Emission_generateInsights ::
  "host \<Rightarrow> clock_readings \<Rightarrow> jsobject \<Rightarrow> log_entry list \<times> (js_error + jsobject)" where
  "Emission_generateInsights h readings emissionData =
     (let v = validateData emissionData [''source'', ''value'', ''unit''] in
      if \<not> fst v then
        (snd v @ [LogError ''Error generating emission insights:'' (Error ''Invalid emission data provided'')],
         Inl (Error ''Invalid emission data provided''))
      else
        (let a = analyzeEmissionPerformance h emissionData;
             recommendations = generateEmissionRecommendations a;
             kpisRead = (truthy (field emissionData ''baseline'') \<and> truthy (field emissionData ''value''));
             kpis = calculateEmissionKPIs (readings 0) emissionData;
             projections = calculateEmissionProjections (readings (if kpisRead then 1 else 0)) emissionData
         in (snd v @ [Info (''Generated emission insights for '' @ display h (field emissionData ''source'')
                            @ '' in '' @ display h (or_else (field emissionData ''region'') (JStr ''Global'')))],
             Inr [(''insights'', JArr (map JStr (fst a))),
                  (''recommendations'', JArr (formatRecommendations ''emission'' recommendations)),
                  (''kpis'', JObj kpis),
                  (''projections'', JObj projections),
                  (''confidence'', JNum (BaseAgent_calculateConfidence ''emission'' emissionData
                                           (join '' '' (fst a)))),
                  (''agent'', JStr ''emission''),
                  (''timestamp'', JStr (isoString (readings (if kpisRead then 2 else 1)))),
                  (''scopeAnalysis'', JObj (snd a))])))"

section \<open>The packaging agent (\<open>srv/lib/agents/packaging-agent.js\<close>)\<close>

text \<open>
  In the tables of the agents a key is looked up among the own properties. A key that
  names a member of \<open>Object.prototype\<close> (a material called \<open>constructor\<close>) is
  outside the model, except where a definition below reads with \<open>get_property\<close>.
\<close>

record material_targets =
  recyclableTarget :: real
  recycledContentTarget :: real
  carbonFootprintMax :: real

definition materialTargets :: "(string \<times> material_targets) list" where
  "materialTargets =
     [(''PET'', \<lparr>recyclableTarget = 100, recycledContentTarget = 50, carbonFootprintMax = js_lit 0.090\<rparr>),
      (''Aluminum'', \<lparr>recyclableTarget = 100, recycledContentTarget = 75, carbonFootprintMax = js_lit 0.160\<rparr>),
      (''Glass'', \<lparr>recyclableTarget = 100, recycledContentTarget = 45, carbonFootprintMax = js_lit 0.240\<rparr>),
      (''HDPE'', \<lparr>recyclableTarget = 90, recycledContentTarget = 35, carbonFootprintMax = js_lit 0.070\<rparr>),
      (''Cardboard'', \<lparr>recyclableTarget = 95, recycledContentTarget = 80, carbonFootprintMax = js_lit 0.050\<rparr>)]"

text \<open>\<open>this.materialTargets[material] || this.materialTargets.PET\<close>\<close>

definition targetsOf :: "jsval \<Rightarrow> material_targets" where
  "targetsOf material =
     (let pet = \<lparr>recyclableTarget = 100, recycledContentTarget = 50, carbonFootprintMax = js_lit 0.090\<rparr>
      in case material of
           JStr m \<Rightarrow> (case map_of materialTargets m of Some t \<Rightarrow> t | None \<Rightarrow> pet)
         | _ \<Rightarrow> pet)"

definition categorizeVolume :: "real \<Rightarrow> string" where
  "categorizeVolume volume =
     (if volume \<ge> 5000000 then ''Large'' else if volume \<ge> 1000000 then ''Medium''
      else if volume \<ge> 100000 then ''Small'' else ''Pilot'')"

definition analyzePackagingPerformance :: "host \<Rightarrow> jsobject \<Rightarrow> analysis" where
  "analyzePackagingPerformance h data =
     (let material = display h (field data ''material'');
          targets = targetsOf (field data ''material'');
          a0 = ([], []);
          a1 = (if field data ''recyclableContent'' \<noteq> JUndefined then
                  (let recyclabilityGap = js_sub (recyclableTarget targets) (num (field data ''recyclableContent'')) in
                   if recyclabilityGap > 0 then
                     assign ''recyclabilityStatus'' (JStr ''Below Target'')
                       (push (material @ '' recyclability at '' @ display h (field data ''recyclableContent'')
                              @ ''% is '' @ numToString h recyclabilityGap @ ''% below the ''
                              @ numToString h (recyclableTarget targets) @ ''% target'') a0)
                   else
                     assign ''recyclabilityStatus'' (JStr ''On Target'')
                       (push (material @ '' recyclability at '' @ display h (field data ''recyclableContent'')
                              @ ''% meets or exceeds the '' @ numToString h (recyclableTarget targets)
                              @ ''% target'') a0))
                else a0);
          a2 = (if field data ''recycledContent'' \<noteq> JUndefined then
                  (let recycledContentGap = js_sub (recycledContentTarget targets) (num (field data ''recycledContent'')) in
                   if recycledContentGap > 0 then
                     assign ''recycledContentStatus'' (JStr ''Below Target'')
                       (push (material @ '' recycled content at '' @ display h (field data ''recycledContent'')
                              @ ''% needs '' @ numToString h recycledContentGap @ ''% improvement to meet ''
                              @ numToString h (recycledContentTarget targets) @ ''% target'') a1)
                   else
                     assign ''recycledContentStatus'' (JStr ''On Target'')
                       (push (material @ '' recycled content at '' @ display h (field data ''recycledContent'')
                              @ ''% meets the '' @ numToString h (recycledContentTarget targets)
                              @ ''% target'') a1))
                else a1);
          a3 = (if field data ''carbonFootprint'' \<noteq> JUndefined then
                  (if num (field data ''carbonFootprint'') > carbonFootprintMax targets then
                     (let excess = toFixed h
                            (js_mul (js_div (js_sub (num (field data ''carbonFootprint'')) (carbonFootprintMax targets))
                                            (carbonFootprintMax targets)) 100) 1 in
                      assign ''carbonFootprintStatus'' (JStr ''Above Target'')
                        (push (material @ '' carbon footprint at '' @ display h (field data ''carbonFootprint'')
                               @ '' kg CO2e is '' @ excess @ ''% above optimal levels'') a2))
                   else
                     assign ''carbonFootprintStatus'' (JStr ''On Target'')
                       (push (material @ '' carbon footprint at '' @ display h (field data ''carbonFootprint'')
                              @ '' kg CO2e is within optimal range'') a2))
                else a2);
          a4 = (if field data ''collectionRate'' \<noteq> JUndefined then
                  (let regionTarget = (if field data ''region'' = JStr ''Europe'' then 85 else 70);
                       collectionGap = js_sub regionTarget (num (field data ''collectionRate'')) in
                   if collectionGap > 0 then
                     assign ''collectionStatus'' (JStr ''Below Target'')
                       (push (''Collection rate in '' @ display h (field data ''region'') @ '' at ''
                              @ display h (field data ''collectionRate'') @ ''% needs ''
                              @ numToString h collectionGap @ ''% improvement to meet ''
                              @ numToString h regionTarget @ ''% target'') a3)
                   else
                     assign ''collectionStatus'' (JStr ''On Target'')
                       (push (''Collection rate in '' @ display h (field data ''region'') @ '' at ''
                              @ display h (field data ''collectionRate'') @ ''% meets the ''
                              @ numToString h regionTarget @ ''% target'') a3))
                else a3);
          a5 = (if field data ''volume'' \<noteq> JUndefined then
                  (let volumeCategory = categorizeVolume (num (field data ''volume'')) in
                   assign ''volumeCategory'' (JStr volumeCategory)
                     (push (material @ '' volume at '' @ toLocaleString h (num (field data ''volume''))
                            @ '' units represents '' @ volumeCategory @ '' scale production'') a4))
                else a4)
      in a5)"

definition generatePackagingRecommendations :: "analysis \<Rightarrow> string list" where
  "generatePackagingRecommendations a =
     (let materialSpecific = snd a in
      (if field materialSpecific ''recyclabilityStatus'' = JStr ''Below Target'' then
         [''Transition to fully recyclable material alternatives'',
          ''Eliminate multi-layer packaging that hinders recyclability'',
          ''Partner with recycling facilities to improve material compatibility'']
       else [])
      @ (if field materialSpecific ''recycledContentStatus'' = JStr ''Below Target'' then
           [''Increase supplier partnerships for recycled materials'',
            ''Invest in recycled content processing capabilities'',
            ''Implement closed-loop recycling systems'']
         else [])
      @ (if field materialSpecific ''carbonFootprintStatus'' = JStr ''Above Target'' then
           [''Optimize packaging design to reduce material usage'',
            ''Switch to lower-carbon alternative materials'',
            ''Improve transportation efficiency through packaging optimization'']
         else [])
      @ (if field materialSpecific ''collectionStatus'' = JStr ''Below Target'' then
           [''Expand collection infrastructure in underperforming regions'',
            ''Implement consumer education programs on proper disposal'',
            ''Partner with local governments on collection initiatives'']
         else [])
      @ [''Explore bio-based packaging alternatives'',
         ''Implement smart packaging with recycling instructions'',
         ''Develop regional packaging strategies based on local infrastructure''])"

text \<open>The sum and the count of the fields that are present, for the composite index.\<close>

definition presentSum :: "jsobject \<Rightarrow> string list \<Rightarrow> real \<times> nat" where
  "presentSum data keys =
     foldl (\<lambda>acc key. if field data key \<noteq> JUndefined
                        then (js_add (fst acc) (num (field data key)), snd acc + 1) else acc)
       (0, 0) keys"

definition calculatePackagingKPIs :: "jsobject \<Rightarrow> jsobject" where
  "calculatePackagingKPIs data =
     (let k0 = [];
          k1 = (if field data ''recyclableContent'' \<noteq> JUndefined then
                  map_set ''recyclabilityScore'' (field data ''recyclableContent'') k0
                else k0);
          si = presentSum data [''recyclableContent'', ''recycledContent'', ''collectionRate''];
          k2 = (if snd si > 0 then
                  map_set ''sustainabilityIndex'' (JNum (js_div (fst si) (real (snd si)))) k1
                else k1);
          k3 = (if field data ''carbonFootprint'' \<noteq> JUndefined \<and> field data ''volume'' \<noteq> JUndefined
                   \<and> num (field data ''volume'') > 0 then
                  map_set ''carbonIntensity''
                    (JNum (js_mul (js_div (num (field data ''carbonFootprint'')) (num (field data ''volume''))) 1000)) k2
                else k2);
          targets = targetsOf (field data ''material'');
          k4 = (if field data ''recyclableContent'' \<noteq> JUndefined then
                  map_set ''recyclabilityAchievement''
                    (JNum (js_mul (js_div (num (field data ''recyclableContent'')) (recyclableTarget targets)) 100)) k3
                else k3);
          k5 = (if field data ''recycledContent'' \<noteq> JUndefined then
                  map_set ''recycledContentAchievement''
                    (JNum (js_mul (js_div (num (field data ''recycledContent'')) (recycledContentTarget targets)) 100)) k4
                else k4)
      in k5)"

text \<open>
  \<open>generateInsights\<close>: the log entries written and the result, an exception or the
  insight object. The one reading of the clock is that of the timestamp.
\<close>

definition Packaging_generateInsights ::
  "host \<Rightarrow> clock_readings \<Rightarrow> jsobject \<Rightarrow> log_entry list \<times> (js_error + jsobject)" where
  "Packaging_generateInsights h readings packagingData =
     (let v = validateData packagingData [''material'', ''region''] in
      if \<not> fst v then
        (snd v @ [LogError ''Error generating packaging insights:'' (Error ''Invalid packaging data provided'')],
         Inl (Error ''Invalid packaging data provided''))
      else
        (let a = analyzePackagingPerformance h packagingData;
             recommendations = generatePackagingRecommendations a;
             kpis = calculatePackagingKPIs packagingData
         in (snd v @ [Info (''Generated packaging insights for '' @ display h (field packagingData ''material'')
                            @ '' in '' @ display h (field packagingData ''region''))],
             Inr [(''insights'', JArr (map JStr (fst a))),
                  (''recommendations'', JArr (formatRecommendations ''packaging'' recommendations)),
                  (''kpis'', JObj kpis),
                  (''confidence'', JNum (BaseAgent_calculateConfidence ''packaging'' packagingData
                                           (join '' '' (fst a)))),
                  (''agent'', JStr ''packaging''),
                  (''timestamp'', JStr (isoString (readings 0))),
                  (''materialAnalysis'', JObj (snd a))])))"

section \<open>The supply chain agent (\<open>srv/lib/agents/supply-chain-agent.js\<close>)\<close>

definition categorizeSustainabilityScore :: "real \<Rightarrow> string" where
  "categorizeSustainabilityScore score =
     (if score \<ge> 8.5 then ''Excellent'' else if score \<ge> 7.0 then ''Good''
      else if score \<ge> 5.5 then ''Fair'' else if score \<ge> 3.0 then ''Poor'' else ''Critical'')"

definition categorizeContractValue :: "real \<Rightarrow> string" where
  "categorizeContractValue v =
     (if v \<ge> 50000000 then ''Strategic'' else if v \<ge> 10000000 then ''Key''
      else if v \<ge> 1000000 then ''Important'' else ''Standard'')"

definition analyzeSupplierPerformance :: "host \<Rightarrow> jsobject \<Rightarrow> analysis" where
  "analyzeSupplierPerformance h data =
     (let score = num (field data ''sustainabilityScore'');
          scoreCategory = categorizeSustainabilityScore score;
          a0 = ([], []);
          a1 = assign ''scoreStatus''
                 (JStr (if score \<ge> 8.5 then ''Excellent'' else if score \<ge> 7.0 then ''Good''
                        else ''Needs Improvement''))
                 (assign ''scoreCategory'' (JStr scoreCategory)
                    (push (display h (field data ''supplier'') @ '' has a sustainability score of ''
                           @ display h (field data ''sustainabilityScore'') @ ''/10, categorized as ''
                           @ [CHR 0x27] @ scoreCategory @ [CHR 0x27]) a0));
          a2 = (if field data ''carbonIntensity'' \<noteq> JUndefined then
                  (let ci = num (field data ''carbonIntensity'');
                       intensityStatus = (if ci \<le> 2.0 then ''Low'' else if ci \<le> 4.0 then ''Medium'' else ''High'') in
                   assign ''carbonIntensityStatus'' (JStr intensityStatus)
                     (push (''Carbon intensity at '' @ display h (field data ''carbonIntensity'')
                            @ '' kg CO2e/unit is '' @ toLowerCase intensityStatus) a1))
                else a1);
          a3 = (if field data ''recycledContentCapability'' \<noteq> JUndefined then
                  (let rc = num (field data ''recycledContentCapability'');
                       capabilityLevel = (if rc \<ge> 75 then ''High'' else if rc \<ge> 50 then ''Medium'' else ''Low'') in
                   assign ''recycledContentCapability'' (JStr capabilityLevel)
                     (push (''Recycled content capability at '' @ display h (field data ''recycledContentCapability'')
                            @ ''% is '' @ toLowerCase capabilityLevel) a2))
                else a2);
          a4 = (if truthy (field data ''certifications'') then
                  (let certs = split_on CHR '','' (str (field data ''certifications''));
                       certCount = length certs in
                   assign ''certifications'' (JArr (map (\<lambda>cert. JStr (trim cert)) certs))
                     (assign ''certificationCount'' (JNum (real certCount))
                        (push (''Supplier holds '' @ numToString h (real certCount)
                               @ '' sustainability certification(s): '' @ str (field data ''certifications'')) a3)))
                else a3);
          a5 = (if field data ''performanceRating'' \<noteq> JUndefined then
                  (let pr = num (field data ''performanceRating'');
                       ratingStatus = (if pr \<ge> 8.0 then ''Excellent'' else if pr \<ge> 6.0 then ''Good'' else ''Poor'') in
                   assign ''performanceStatus'' (JStr ratingStatus)
                     (push (''Overall performance rating of '' @ display h (field data ''performanceRating'')
                            @ ''/10 is '' @ toLowerCase ratingStatus) a4))
                else a4);
          a6 = (if field data ''contractValue'' \<noteq> JUndefined then
                  (let valueCategory = categorizeContractValue (num (field data ''contractValue'')) in
                   assign ''valueCategory'' (JStr valueCategory)
                     (push (''Contract value of '' @ toLocaleString h (num (field data ''contractValue''))
                            @ '' represents '' @ valueCategory @ '' supplier relationship'') a5))
                else a5);
          a7 = (if truthy (field data ''riskLevel'') then
                  assign ''riskLevel'' (field data ''riskLevel'')
                    (push (''Supplier risk level is assessed as '' @ toLowerCase (str (field data ''riskLevel''))) a6)
                else a6)
      in a7)"

definition generateSupplyChainRecommendations :: "analysis \<Rightarrow> string list" where
  "generateSupplyChainRecommendations a =
     (let supplierSpecific = snd a in
      (if field supplierSpecific ''scoreStatus'' = JStr ''Needs Improvement'' then
         [''Implement supplier development program to improve sustainability performance'',
          ''Provide sustainability training and capacity building support'',
          ''Set clear improvement targets with timeline and milestones'']
       else [])
      @ (if field supplierSpecific ''carbonIntensityStatus'' = JStr ''High'' then
           [''Work with supplier to develop carbon reduction roadmap'',
            ''Encourage adoption of renewable energy and energy efficiency measures'',
            ''Consider carbon pricing in supplier contracts'']
         else [])
      @ (if field supplierSpecific ''recycledContentCapability'' = JStr ''Low'' then
           [''Support supplier investment in recycled content processing capabilities'',
            ''Connect supplier with recycled material sources and technologies'',
            ''Establish recycled content targets in supply agreements'']
         else [])
      @ (if \<not> truthy (field supplierSpecific ''certifications'')
            \<or> num (field supplierSpecific ''certificationCount'') < 2 then
           [''Encourage supplier to obtain relevant sustainability certifications'',
            ''Provide guidance on certification requirements and processes'',
            ''Consider certification requirements in future contracts'']
         else [])
      @ (if field supplierSpecific ''performanceStatus'' = JStr ''Poor'' then
           [''Conduct detailed supplier assessment and improvement planning'',
            ''Consider supplier replacement if improvement targets are not met'',
            ''Implement enhanced monitoring and reporting requirements'']
         else [])
      @ (if field supplierSpecific ''riskLevel'' = JStr ''High'' then
           [''Develop comprehensive risk mitigation plan'',
            ''Increase supplier monitoring and audit frequency'',
            ''Diversify supplier base to reduce dependency'']
         else [])
      @ [''Implement supplier sustainability scorecards and regular reviews'',
         ''Establish long-term partnerships with high-performing suppliers'',
         ''Integrate sustainability criteria into supplier selection processes''])"

definition calculateSupplyChainKPIs :: "jsobject \<Rightarrow> jsobject" where
  "calculateSupplyChainKPIs data =
     (let k0 = [];
          k1 = (if field data ''sustainabilityScore'' \<noteq> JUndefined then
                  map_set ''sustainabilityIndex''
                    (JNum (js_mul (js_div (num (field data ''sustainabilityScore'')) 10) 100)) k0
                else k0);
          k2 = (if field data ''carbonIntensity'' \<noteq> JUndefined then
                  map_set ''carbonEfficiencyScore''
                    (JNum (max 0 (js_sub 100 (js_mul (num (field data ''carbonIntensity'')) 25)))) k1
                else k1);
          k3 = (if field data ''recycledContentCapability'' \<noteq> JUndefined then
                  map_set ''circularEconomyScore''
                    (JNum (js_div (js_add 0 (num (field data ''recycledContentCapability''))) 1)) k2
                else k2);
          k4 = (if truthy (field data ''certifications'') then
                  (let certCount = length (split_on CHR '','' (str (field data ''certifications''))) in
                   map_set ''complianceScore'' (JNum (min 100 (js_mul (real certCount) 25))) k3)
                else k3);
          r1 = (if field data ''sustainabilityScore'' \<noteq> JUndefined then
                  (js_add 0 (js_mul (num (field data ''sustainabilityScore'')) 10), 1::nat)
                else (0, 0));
          r2 = (if field data ''performanceRating'' \<noteq> JUndefined then
                  (js_add (fst r1) (js_mul (num (field data ''performanceRating'')) 10), snd r1 + 1)
                else r1);
          k5 = (if snd r2 > 0 then
                  map_set ''overallSupplierRating'' (JNum (js_div (fst r2) (real (snd r2)))) k4
                else k4);
          k6 = (if truthy (field data ''contractValue'') \<and> truthy (field data ''sustainabilityScore'') then
                  map_set ''valueWeightedPerformance''
                    (JNum (js_mul (num (field data ''contractValue''))
                                  (js_div (num (field data ''sustainabilityScore'')) 10))) k5
                else k5)
      in k6)"

text \<open>
  \<open>assessSupplierRisk\<close> on \<open>(riskScore, maxRiskScore, riskFactors, mitigationStrategies)\<close>.
  The scores are small integers.
\<close>

definition riskStep ::
  "bool \<Rightarrow> nat \<Rightarrow> nat \<Rightarrow> string \<Rightarrow> string \<Rightarrow> nat \<times> nat \<times> string list \<times> string list
     \<Rightarrow> nat \<times> nat \<times> string list \<times> string list" where
  "riskStep present risk maxRisk factor strategy acc =
     (case acc of (riskScore, maxRiskScore, riskFactors, mitigationStrategies) \<Rightarrow>
        if present then
          (riskScore + risk, maxRiskScore + maxRisk,
           if risk > 0 then riskFactors @ [factor] else riskFactors,
           if risk > 0 then mitigationStrategies @ [strategy] else mitigationStrategies)
        else acc)"

definition assessSupplierRisk :: "jsobject \<Rightarrow> jsobject" where
  "assessSupplierRisk data =
     (let s1 = riskStep (field data ''sustainabilityScore'' \<noteq> JUndefined)
                 (if num (field data ''sustainabilityScore'') < 6.0 then 3
                  else if num (field data ''sustainabilityScore'') < 8.0 then 1 else 0) 3
                 ''Low sustainability performance'' ''Implement supplier development program''
                 (0, 0, [], []);
          s2 = riskStep (field data ''carbonIntensity'' \<noteq> JUndefined)
                 (if num (field data ''carbonIntensity'') > 4.0 then 2
                  else if num (field data ''carbonIntensity'') > 2.0 then 1 else 0) 2
                 ''High carbon intensity'' ''Support carbon reduction initiatives'' s1;
          s3 = riskStep (truthy (field data ''region''))
                 (if field data ''region'' = JStr ''Asia Pacific'' then 1 else 0) 1
                 ''Geographic regulatory risk'' ''Monitor regulatory changes and compliance'' s2;
          s4 = riskStep (field data ''contractValue'' \<noteq> JUndefined)
                 (if num (field data ''contractValue'') > 10000000 then 1 else 0) 1
                 ''High contract value dependency'' ''Diversify supplier base'' s3
      in case s4 of (riskScore, maxRiskScore, riskFactors, mitigationStrategies) \<Rightarrow>
           if maxRiskScore > 0 then
             (let riskPercentage = js_mul (js_div (real riskScore) (real maxRiskScore)) 100 in
              [(''overallRisk'', JStr (if riskPercentage > 60 then ''High''
                                       else if riskPercentage > 30 then ''Medium'' else ''Low'')),
               (''riskFactors'', JArr (map JStr riskFactors)),
               (''mitigationStrategies'', JArr (map JStr mitigationStrategies)),
               (''riskScore'', JNum riskPercentage)])
           else
             [(''overallRisk'', JStr ''Medium''),
              (''riskFactors'', JArr (map JStr riskFactors)),
              (''mitigationStrategies'', JArr (map JStr mitigationStrategies))])"

definition SupplyChain_generateInsights ::
  "host \<Rightarrow> clock_readings \<Rightarrow> jsobject \<Rightarrow> log_entry list \<times> (js_error + jsobject)" where
  "SupplyChain_generateInsights h readings supplierData =
     (let v = validateData supplierData [''supplier'', ''sustainabilityScore''] in
      if \<not> fst v then
        (snd v @ [LogError ''Error generating supply chain insights:'' (Error ''Invalid supplier data provided'')],
         Inl (Error ''Invalid supplier data provided''))
      else
        (let a = analyzeSupplierPerformance h supplierData;
             recommendations = generateSupplyChainRecommendations a;
             kpis = calculateSupplyChainKPIs supplierData;
             riskAssessment = assessSupplierRisk supplierData
         in (snd v @ [Info (''Generated supply chain insights for '' @ display h (field supplierData ''supplier'')
                            @ '' in '' @ display h (or_else (field supplierData ''region'') (JStr ''Global'')))],
             Inr [(''insights'', JArr (map JStr (fst a))),
                  (''recommendations'', JArr (formatRecommendations ''supplyChain'' recommendations)),
                  (''kpis'', JObj kpis),
                  (''riskAssessment'', JObj riskAssessment),
                  (''confidence'', JNum (BaseAgent_calculateConfidence ''supplyChain'' supplierData
                                           (join '' '' (fst a)))),
                  (''agent'', JStr ''supplyChain''),
                  (''timestamp'', JStr (isoString (readings 0))),
                  (''supplierAnalysis'', JObj (snd a))])))"

section \<open>The regulatory agent (\<open>srv/lib/agents/regulatory-agent.js\<close>)\<close>

text \<open>
  The table of regulations, with the risk level of each (the only field that the
  analysis reads), by region key.
\<close>

definition regulations :: "(string \<times> (string \<times> string) list) list" where
  "regulations =
     [(''europe'',
         [(''EU Single-Use Plastics Directive'', ''High''),
          (''Extended Producer Responsibility (EPR)'', ''High''),
          (''Packaging and Packaging Waste Directive'', ''Medium''),
          (''EU Taxonomy Regulation'', ''Medium'')]),
      (''asiaPacific'',
         [(''China Plastic Waste Import Ban'', ''High''),
          (''Japan Plastic Resource Circulation Act'', ''Medium''),
          (''Australia National Packaging Targets'', ''Medium'')]),
      (''global'',
         [(''Paris Agreement'', ''High''),
          (''UN Sustainable Development Goals'', ''Low'')])]"

text \<open>\<open>s.replace(' ', '')\<close> removes the first space.\<close>

fun remove_first_space :: "string \<Rightarrow> string" where
  "remove_first_space [] = []"
| "remove_first_space (c # cs) = (if c = CHR '' '' then cs else c # remove_first_space cs)"

text \<open>
  \<open>findRegulation\<close>: the risk level of the regulation found; \<open>Inherited\<close> when the
  name is that of a member of \<open>Object.prototype\<close> (a truthy value without risk level),
  \<open>Undefined\<close> when nothing is found. A region key that names a member of
  \<open>Object.prototype\<close> is outside the model (it is read as no regulation found).
\<close>

definition findRegulation :: "jsval \<Rightarrow> jsval \<Rightarrow> string property" where
  "findRegulation regulationName region =
     (let regionKey = remove_first_space (toLowerCase (str region)) in
      case get_property regulations regionKey of
        Own table \<Rightarrow> get_property table (str regulationName)
      | Inherited m \<Rightarrow> Undefined
      | Undefined \<Rightarrow> get_property (the (map_of regulations ''global'')) (str regulationName))"

definition assessComplianceLevel :: "jsval \<Rightarrow> string" where
  "assessComplianceLevel status =
     (case status of
        JStr s \<Rightarrow>
          (case map_of [(''Compliant'', ''Full Compliance''), (''In Progress'', ''Partial Compliance''),
                        (''Non-Compliant'', ''Non-Compliant''), (''Not Applicable'', ''Not Applicable'')] s of
             Some l \<Rightarrow> l | None \<Rightarrow> ''Unknown'')
      | _ \<Rightarrow> ''Unknown'')"

text \<open>
  \<open>calculateDaysToDeadline\<close> reads the clock: the days from now to the deadline,
  rounded up.
\<close>

definition calculateDaysToDeadline :: "host \<Rightarrow> clock \<Rightarrow> jsval \<Rightarrow> real" where
  "calculateDaysToDeadline h clk deadline =
     (let deadlineDate = dateParse h (str deadline);
          today = nowMs clk;
          diffTime = js_sub deadlineDate today
      in of_int \<lceil>js_div diffTime (1000 * 60 * 60 * 24)\<rceil>)"

definition assessUrgency :: "real \<Rightarrow> string" where
  "assessUrgency daysToDeadline =
     (if daysToDeadline < 30 then ''High'' else if daysToDeadline < 90 then ''Medium'' else ''Low'')"

definition calculateComplianceScore :: "jsval \<Rightarrow> real" where
  "calculateComplianceScore status =
     (case status of
        JStr s \<Rightarrow>
          (case map_of [(''Compliant'', 100), (''In Progress'', 60), (''Non-Compliant'', 20),
                        (''Not Applicable'', 0)] s of
             Some x \<Rightarrow> x | None \<Rightarrow> 0)
      | _ \<Rightarrow> 0)"

definition getRegionalContext :: "jsval \<Rightarrow> string option" where
  "getRegionalContext region =
     (case region of
        JStr r \<Rightarrow>
          map_of [(''Europe'', ''European regulations are comprehensive and strictly enforced with significant penalties''),
                  (''Asia Pacific'', ''Asia Pacific regulatory landscape is rapidly evolving with increasing stringency''),
                  (''Global'', ''International agreements provide framework for national and regional implementation'')] r
      | _ \<Rightarrow> None)"

definition analyzeComplianceStatus :: "host \<Rightarrow> clock \<Rightarrow> jsobject \<Rightarrow> analysis" where
  "analyzeComplianceStatus h clk data =
     (let regulation = findRegulation (field data ''regulation'') (field data ''region'');
          complianceLevel = assessComplianceLevel (field data ''complianceStatus'');
          a0 = ([], []);
          a1 = assign ''complianceLevel'' (JStr complianceLevel)
                 (push (display h (field data ''regulation'') @ '' compliance status is ''
                        @ display h (field data ''complianceStatus'') @ '' ('' @ complianceLevel @ '')'') a0);
          a2 = (if truthy (field data ''deadline'') then
                  (let daysToDeadline = calculateDaysToDeadline h clk (field data ''deadline'');
                       urgency = assessUrgency daysToDeadline in
                   assign ''urgency'' (JStr urgency)
                     (assign ''daysToDeadline'' (JNum daysToDeadline)
                        (push (''Compliance deadline is '' @ display h (field data ''deadline'') @ '' (''
                               @ numToString h daysToDeadline @ '' days remaining, '' @ urgency
                               @ '' urgency)'') a1)))
                else a1);
          a3 = (case regulation of
                  Own riskLevel \<Rightarrow>
                    assign ''regulatoryRisk'' (JStr riskLevel)
                      (push (''Regulatory risk level is assessed as '' @ toLowerCase riskLevel) a2)
                | _ \<Rightarrow> a2);
          a4 = (if truthy (field data ''requirement'') then
                  assign ''keyRequirement'' (field data ''requirement'')
                    (push (''Key requirement: '' @ display h (field data ''requirement'')) a3)
                else a3);
          a5 = (if truthy (field data ''actions'') then
                  (let actions = split_on CHR '','' (str (field data ''actions''));
                       actionCount = length actions in
                   assign ''actions'' (JArr (map (\<lambda>action. JStr (trim action)) actions))
                     (assign ''actionCount'' (JNum (real actionCount))
                        (push (numToString h (real actionCount) @ '' action item(s) identified for compliance'') a4)))
                else a4);
          a6 = (if truthy (field data ''responsible'') then
                  assign ''responsibleParty'' (field data ''responsible'')
                    (push (''Compliance responsibility assigned to: '' @ display h (field data ''responsible'')) a5)
                else a5);
          a7 = (case getRegionalContext (field data ''region'') of
                  Some regionalContext \<Rightarrow>
                    assign ''regionalContext'' (JStr regionalContext) (push regionalContext a6)
                | None \<Rightarrow> a6)
      in a7)"

definition generateComplianceRecommendations :: "analysis \<Rightarrow> string list" where
  "generateComplianceRecommendations a =
     (let complianceSpecific = snd a in
      (if field complianceSpecific ''complianceLevel'' = JStr ''Non-Compliant'' then
         [''Immediate action required to achieve regulatory compliance'',
          ''Conduct comprehensive compliance gap analysis'',
          ''Engage legal counsel for compliance strategy development'']
       else if field complianceSpecific ''complianceLevel'' = JStr ''Partial Compliance'' then
         [''Accelerate compliance improvement initiatives'',
          ''Address remaining compliance gaps systematically'',
          ''Implement enhanced monitoring and reporting systems'']
       else [])
      @ (if field complianceSpecific ''urgency'' = JStr ''High'' then
           [''Establish dedicated compliance task force'',
            ''Prioritize resources for immediate compliance actions'',
            ''Consider interim measures to reduce non-compliance risk'']
         else if field complianceSpecific ''urgency'' = JStr ''Medium'' then
           [''Develop detailed compliance implementation timeline'',
            ''Allocate sufficient resources for compliance activities'',
            ''Regular progress monitoring and reporting'']
         else [])
      @ (if field complianceSpecific ''regulatoryRisk'' = JStr ''High'' then
           [''Implement comprehensive risk mitigation strategy'',
            ''Engage with regulatory authorities proactively'',
            ''Consider compliance insurance or bonding'']
         else [])
      @ (if field complianceSpecific ''actionCount'' \<noteq> JUndefined
            \<and> num (field complianceSpecific ''actionCount'') > 5 then
           [''Prioritize compliance actions based on risk and impact'',
            ''Establish clear accountability and timelines for each action'',
            ''Implement project management approach for compliance activities'']
         else [])
      @ [''Establish regulatory monitoring and early warning system'',
         ''Develop compliance training programs for relevant staff'',
         ''Create compliance documentation and audit trails'',
         ''Engage with industry associations on regulatory developments''])"

definition calculateComplianceKPIs :: "host \<Rightarrow> clock \<Rightarrow> jsobject \<Rightarrow> jsobject" where
  "calculateComplianceKPIs h clk data =
     (let complianceScore = calculateComplianceScore (field data ''complianceStatus'');
          k1 = map_set ''complianceScore'' (JNum complianceScore) [];
          k2 = (if truthy (field data ''deadline'') then
                  map_set ''daysToDeadline'' (JNum (calculateDaysToDeadline h clk (field data ''deadline''))) k1
                else k1);
          k3 = (if truthy (field data ''complianceStatus'')
                   \<and> field data ''complianceStatus'' \<noteq> JStr ''Not Applicable'' then
                  map_set ''complianceProgress''
                    (JNum (case field data ''complianceStatus'' of
                             JStr s \<Rightarrow>
                               (case map_of [(''Compliant'', 100), (''In Progress'', 60),
                                             (''Non-Compliant'', 20)] s of
                                  Some x \<Rightarrow> x | None \<Rightarrow> 0)
                           | _ \<Rightarrow> 0)) k2
                else k2);
          regulation = findRegulation (field data ''regulation'') (field data ''region'');
          k4 = (case regulation of
                  Own riskLevel \<Rightarrow>
                    map_set ''riskScore''
                      (JNum (case map_of [(''High'', 80), (''Medium'', 50), (''Low'', 20)] riskLevel of
                               Some x \<Rightarrow> x | None \<Rightarrow> 50)) k3
                | Inherited m \<Rightarrow> map_set ''riskScore'' (JNum 50) k3
                | Undefined \<Rightarrow> k3);
          k5 = (if field k4 ''daysToDeadline'' \<noteq> JUndefined then
                  map_set ''urgencyScore''
                    (JNum (max 0 (js_sub 100 (js_mul (js_div (num (field k4 ''daysToDeadline'')) 365) 100)))) k4
                else k4);
          h1 = (js_add 0 complianceScore, 1::nat);
          h2 = (if field k5 ''riskScore'' \<noteq> JUndefined then
                  (js_add (fst h1) (js_sub 100 (num (field k5 ''riskScore''))), snd h1 + 1)
                else h1);
          k6 = map_set ''overallComplianceHealth'' (JNum (js_div (fst h2) (real (snd h2)))) k5
      in k6)"

definition assessRegulatoryRisk :: "host \<Rightarrow> clock \<Rightarrow> jsobject \<Rightarrow> jsobject" where
  "assessRegulatoryRisk h clk data =
     (let r0 = (''Medium'', [], []);
          r1 = (if field data ''complianceStatus'' = JStr ''Non-Compliant'' then
                  (''High'', [''Non-compliant status''], [''Immediate compliance remediation''])
                else r0);
          r2 = (if truthy (field data ''deadline'')
                   \<and> calculateDaysToDeadline h clk (field data ''deadline'') < 90 then
                  (''High'', fst (snd r1) @ [''Approaching compliance deadline''],
                   snd (snd r1) @ [''Accelerate compliance activities''])
                else r1);
          r3 = (if findRegulation (field data ''regulation'') (field data ''region'') = Own ''High'' then
                  (fst r2, fst (snd r2) @ [''High-risk regulation''],
                   snd (snd r2) @ [''Enhanced compliance monitoring''])
                else r2);
          r4 = (if field data ''region'' = JStr ''Europe'' then
                  (fst r3, fst (snd r3) @ [''Strict European regulatory environment''],
                   snd (snd r3) @ [''Proactive regulatory engagement''])
                else r3)
      in [(''overallRisk'', JStr (fst r4)),
          (''riskFactors'', JArr (map JStr (fst (snd r4)))),
          (''mitigationStrategies'', JArr (map JStr (snd (snd r4))))])"

text \<open>
  \<open>generateInsights\<close>. When the record has a deadline, \<open>analyzeComplianceStatus\<close>,
  \<open>calculateComplianceKPIs\<close> and \<open>assessRegulatoryRisk\<close> call
  \<open>calculateDaysToDeadline\<close> once each, which takes a reading of the clock of its own,
  and the timestamp is the fourth reading; without a deadline the timestamp is the only
  reading.
\<close>

definition Regulatory_generateInsights ::
  "host \<Rightarrow> clock_readings \<Rightarrow> jsobject \<Rightarrow> log_entry list \<times> (js_error + jsobject)" where
  "Regulatory_generateInsights h readings complianceData =
     (let v = validateData complianceData [''regulation'', ''region''] in
      if \<not> fst v then
        (snd v @ [LogError ''Error generating regulatory insights:'' (Error ''Invalid compliance data provided'')],
         Inl (Error ''Invalid compliance data provided''))
      else
        (let a = analyzeComplianceStatus h (readings 0) complianceData;
             recommendations = generateComplianceRecommendations a;
             kpis = calculateComplianceKPIs h (readings 1) complianceData;
             riskAssessment = assessRegulatoryRisk h (readings 2) complianceData;
             hasDeadline = truthy (field complianceData ''deadline'')
         in (snd v @ [Info (''Generated regulatory insights for '' @ display h (field complianceData ''regulation'')
                            @ '' in '' @ display h (field complianceData ''region''))],
             Inr [(''insights'', JArr (map JStr (fst a))),
                  (''recommendations'', JArr (formatRecommendations ''regulatory'' recommendations)),
                  (''kpis'', JObj kpis),
                  (''riskAssessment'', JObj riskAssessment),
                  (''confidence'', JNum (BaseAgent_calculateConfidence ''regulatory'' complianceData
                                           (join '' '' (fst a)))),
                  (''agent'', JStr ''regulatory''),
                  (''timestamp'', JStr (isoString (readings (if hasDeadline then 3 else 0)))),
                  (''complianceAnalysis'', JObj (snd a))])))"

text \<open>A result without its \<open>timestamp\<close> field; an exception is left as it is.\<close>

definition without_timestamp :: "js_error + jsobject \<Rightarrow> js_error + jsobject" where
  "without_timestamp res =
     (case res of Inl e \<Rightarrow> Inl e | Inr obj \<Rightarrow> Inr (filter (\<lambda>kv. fst kv \<noteq> ''timestamp'') obj))"

section \<open>Example inputs\<close>

definition example_env :: env where
  "example_env = \<lparr>md5 = (\<lambda>s. s), RAG_CHUNK_SIZE = None, RAG_CHUNK_OVERLAP = None\<rparr>"

definition empty_state :: rag_state where
  "empty_state = \<lparr>knowledgeBase = [], vectorStore = [], documentChunks = []\<rparr>"

definition example_doc :: "string \<Rightarrow> nat \<Rightarrow> stored_doc" where
  "example_doc c i = \<lparr>content = c, embedding = createSimpleEmbedding c,
                        metadata = \<lparr>source = ''guidelines.txt'', chunk = i\<rparr>\<rparr>"

definition example_state :: rag_state where
  "example_state =
     \<lparr>knowledgeBase = [],
      vectorStore = [(''c0'', example_doc ''plastic'' 0), (''c1'', example_doc ''carbon'' 1),
                     (''c2'', example_doc ''glass'' 2)],
      documentChunks = []\<rparr>"

text \<open>Clock readings: 2 November 2025 at midnight (UTC), one hour later, one day later.\<close>

definition example_clock :: clock where
  "example_clock = \<lparr>nowMs = 1762041600000, fullYear = 2025, isoString = ''2025-11-02T00:00:00.000Z''\<rparr>"

definition failing_llm :: llm where
  "failing_llm a prompt = Inl (Error ''request timed out'')"


text \<open>
  A host for the examples: it prints the integer part of a number, and the time value it
  gives is that of 2025-12-31 (UTC), the one date string of the examples.
\<close>

definition example_host :: host where
  "example_host = \<lparr>numToString = (\<lambda>x. digits (nat \<lfloor>x\<rfloor>)),
                    toFixed = (\<lambda>x n. digits (nat \<lfloor>x\<rfloor>)),
                    toLocaleString = (\<lambda>x. digits (nat \<lfloor>x\<rfloor>)),
                    dateParse = (\<lambda>s. 1767139200000)\<rparr>"

definition emission_record :: jsobject where
  "emission_record = [(''source'', JStr ''Packaging''), (''value'', JNum 815),
                      (''baseline'', JNum 1000), (''region'', JStr ''Europe'')]"

definition emission_record_with_unit :: jsobject where
  "emission_record_with_unit = [(''source'', JStr ''Packaging''), (''value'', JNum 815),
                                (''unit'', JStr ''tCO2e''), (''baseline'', JNum 1000),
                                (''region'', JStr ''Europe'')]"

definition next_day_clock :: clock where
  "next_day_clock = \<lparr>nowMs = 1762128000000, fullYear = 2025, isoString = ''2025-11-03T00:00:00.000Z''\<rparr>"

definition compliance_record :: jsobject where
  "compliance_record = [(''regulation'', JStr ''EU Single-Use Plastics Directive''),
                        (''region'', JStr ''Europe''),
                        (''complianceStatus'', JStr ''In Progress''),
                        (''deadline'', JStr ''2025-12-31'')]"

text \<open>The number of days to the deadline that a result reports among its KPIs.\<close>

definition reported_days :: "js_error + jsobject \<Rightarrow> jsval" where
  "reported_days res =
     (case res of Inl e \<Rightarrow> JUndefined | Inr obj \<Rightarrow> get_prop (field obj ''kpis'') ''daysToDeadline'')"

definition hour_later_clock :: clock where
  "hour_later_clock = \<lparr>nowMs = 1762045200000, fullYear = 2025, isoString = ''2025-11-02T01:00:00.000Z''\<rparr>"

text \<open>
  The readings of a call during which the clock shows the same time throughout, and those
  of a call that starts at midnight and takes its later readings one hour after.
\<close>

definition steady :: "clock \<Rightarrow> clock_readings" where
  "steady c = (\<lambda>i. c)"

definition moving_clock :: clock_readings where
  "moving_clock = (\<lambda>i. if i = 0 then example_clock else hour_later_clock)"


section \<open>Facts about rounding\<close>


lemma fl_zero: "fl 0 = 0" by (simp add: fl_def)

lemma js_div_eq: "b \<noteq> 0 \<Longrightarrow> js_div a b = fl (a / b)"
  by (simp add: js_div_def)

lemma rne_ge_floor: "\<lfloor>x\<rfloor> \<le> rne x"
  by (simp add: rne_def Let_def)

lemma rne_le: "rne x \<le> \<lfloor>x\<rfloor> + 1"
  by (simp add: rne_def Let_def)

lemma rne_unique:
  assumes "of_int n - 1/2 < x" "x < of_int n + 1/2"
  shows "rne x = n"
proof -
  have "\<lfloor>x\<rfloor> = n \<or> \<lfloor>x\<rfloor> = n - 1" using assms by linarith
  then show ?thesis
  proof
    assume f: "\<lfloor>x\<rfloor> = n"
    then have "x - of_int \<lfloor>x\<rfloor> < 1/2" using assms by simp
    then show ?thesis using f by (simp add: rne_def Let_def)
  next
    assume f: "\<lfloor>x\<rfloor> = n - 1"
    then have "1/2 < x - of_int \<lfloor>x\<rfloor>" using assms by simp
    then show ?thesis using f by (simp add: rne_def Let_def)
  qed
qed

lemma rne_of_int: "rne (of_int n) = n"
  by (rule rne_unique) simp_all

lemma fl_eq:
  assumes "2 powr of_int e \<le> \<bar>x\<bar>" "\<bar>x\<bar> < 2 powr of_int (e + 1)"
  shows "fl x = of_int (rne (x / 2 powr of_int (e - 52))) * 2 powr of_int (e - 52)"
proof -
  have x0: "x \<noteq> 0" using assms(1) by (smt (verit) powr_gt_zero abs_zero)
  have "of_int e \<le> log 2 \<bar>x\<bar>" using assms(1) x0
    by (simp add: le_log_iff)
  moreover have "log 2 \<bar>x\<bar> < of_int (e + 1)" using assms(2) x0
    by (simp add: log_less_iff)
  ultimately have "\<lfloor>log 2 \<bar>x\<bar>\<rfloor> = e" by linarith
  then show ?thesis using x0 by (simp add: fl_def Let_def)
qed

lemma fl_pos:
  assumes "0 < x" shows "0 < fl x"
proof -
  define e where "e = \<lfloor>log 2 \<bar>x\<bar>\<rfloor> - 52"
  have "of_int (e + 52) \<le> log 2 x" using assms by (simp add: e_def)
  then have "2 powr of_int (e + 52) \<le> x" using assms
    by (simp add: le_log_iff)
  then have "2 powr of_int e * 2 powr 52 \<le> x" by (simp add: powr_add)
  then have "2 powr 52 \<le> x / 2 powr of_int e"
    by (simp add: pos_le_divide_eq mult.commute)
  then have "(1::real) \<le> x / 2 powr of_int e" by (smt (verit) powr_mono powr_zero_eq_one one_le_numeral)
  then have "1 \<le> \<lfloor>x / 2 powr of_int e\<rfloor>" by linarith
  then have "0 < rne (x / 2 powr of_int e)" using rne_ge_floor[of "x / 2 powr of_int e"] by linarith
  then show ?thesis using assms by (simp add: fl_def Let_def e_def)
qed

lemma fl_nonneg: "0 \<le> x \<Longrightarrow> 0 \<le> fl x"
  using fl_pos[of x] fl_zero by (cases "x = 0") (auto simp: less_eq_real_def)

lemma powr_neg_nat: "(2::real) powr of_int (- int k) = 1 / 2 ^ k"
  by (simp add: powr_minus powr_realpow divide_inverse)

lemma powr_pos_nat: "(2::real) powr of_int (int k) = 2 ^ k"
  by (simp add: powr_realpow)

lemma fl_eval_ge1:
  assumes "2 ^ m \<le> \<bar>x\<bar>" "\<bar>x\<bar> < 2 ^ (Suc m)" "m \<le> 52"
  shows "fl x = of_int (rne (x * 2 ^ (52 - m))) / 2 ^ (52 - m)"
proof -
  have a: "2 powr of_int (int m) \<le> \<bar>x\<bar>" using assms(1) by (simp add: powr_realpow)
  have "int m + 1 = int (Suc m)" by simp
  then have b: "\<bar>x\<bar> < 2 powr of_int (int m + 1)" using assms(2) powr_pos_nat[of "Suc m"] by metis
  have c: "int m - 52 = - int (52 - m)" using assms(3) by simp
  show ?thesis using fl_eq[OF a b] unfolding c powr_neg_nat by simp
qed

lemma fl_eval_lt1:
  assumes "1 / 2 ^ j \<le> \<bar>x\<bar>" "\<bar>x\<bar> < 2 / 2 ^ j" "0 < j"
  shows "fl x = of_int (rne (x * 2 ^ (52 + j))) / 2 ^ (52 + j)"
proof -
  have a: "2 powr of_int (- int j) \<le> \<bar>x\<bar>" unfolding powr_neg_nat using assms(1) .
  obtain i where j: "j = Suc i" using assms(3) by (cases j) auto
  have "- int j + 1 = - int i" using j by simp
  moreover have "(2::real) / 2 ^ j = 1 / 2 ^ i" using j by simp
  ultimately have b: "\<bar>x\<bar> < 2 powr of_int (- int j + 1)" using assms(2) powr_neg_nat[of i] by metis
  have c: "- int j - 52 = - int (52 + j)" by simp
  show ?thesis using fl_eq[OF a b] unfolding c powr_neg_nat by simp
qed

lemma fl_of_int:
  assumes "\<bar>n\<bar> < 2 ^ 53"
  shows "fl (of_int n) = of_int n"
proof (cases "n = 0")
  case True then show ?thesis by (simp add: fl_zero)
next
  case False
  define x :: real where "x = of_int n"
  have x1: "1 \<le> \<bar>x\<bar>" using False by (simp add: x_def; linarith)
  define m where "m = nat \<lfloor>log 2 \<bar>x\<bar>\<rfloor>"
  have lg0: "0 \<le> log 2 \<bar>x\<bar>" using x1 by simp
  then have fl0: "0 \<le> \<lfloor>log 2 \<bar>x\<bar>\<rfloor>" by simp
  have "real m \<le> log 2 \<bar>x\<bar>" using fl0 by (simp add: m_def; linarith)
  then have lo: "2 ^ m \<le> \<bar>x\<bar>" using x1 by (simp add: le_log_iff powr_realpow)
  have "log 2 \<bar>x\<bar> < real (Suc m)" using fl0 by (simp add: m_def; linarith)
  then have hi: "\<bar>x\<bar> < 2 ^ Suc m" using x1
    by (metis less_log_iff log_less_iff not_one_le_zero numeral_One one_less_numeral_iff order_less_le_trans powr_realpow semiring_norm(76) zero_less_numeral zero_less_one)
  have "\<bar>x\<bar> < 2 ^ 53" using assms by (simp add: x_def)
  then have p: "(2::real) ^ m < 2 ^ 53" using lo by linarith
  have "m < 53" using power_less_imp_less_exp[OF _ p] by simp
  then have m52: "m \<le> 52" by simp
  have "x * 2 ^ (52 - m) = of_int (n * 2 ^ (52 - m))" by (simp add: x_def)
  then have "rne (x * 2 ^ (52 - m)) = n * 2 ^ (52 - m)" using rne_of_int by metis
  then show ?thesis using fl_eval_ge1[OF lo hi m52] by (simp add: x_def)
qed

lemma fl_sqrt3: "fl (sqrt 3) = 7800463371553962 / 2 ^ 52"
proof -
  have lo: "(2::real) ^ 0 \<le> \<bar>sqrt 3\<bar>" by simp
  have hi: "\<bar>sqrt 3\<bar> < 2 ^ Suc 0" by (simp add: real_less_lsqrt)
  have a: "(15600926743107923 / 2 ^ 53 :: real) < sqrt 3"
    by (rule real_less_rsqrt) (simp add: power2_eq_square)
  have b: "sqrt 3 < (15600926743107925 / 2 ^ 53 :: real)"
    by (rule real_less_lsqrt) (simp_all add: power2_eq_square)
  have "rne (sqrt 3 * 2 ^ 52) = 7800463371553962"
    by (rule rne_unique) (use a b in simp_all)
  then show ?thesis using fl_eval_ge1[OF lo hi] by simp
qed

lemma fl_sq: "fl (7800463371553962 / 2 ^ 52 * (7800463371553962 / 2 ^ 52)) = 6755399441055743 / 2 ^ 51"
proof -
  let ?x = "7800463371553962 / 2 ^ 52 * (7800463371553962 / 2 ^ 52) :: real"
  have lo: "(2::real) ^ 1 \<le> \<bar>?x\<bar>" by simp
  have hi: "\<bar>?x\<bar> < 2 ^ Suc 1" by simp
  have "rne (?x * 2 ^ 51) = 6755399441055743"
    by (rule rne_unique) simp_all
  then show ?thesis using fl_eval_ge1[OF lo hi] by simp
qed

lemma fl_quot: "fl (3 / (6755399441055743 / 2 ^ 51)) = 4503599627370497 / 2 ^ 52"
proof -
  let ?x = "3 / (6755399441055743 / 2 ^ 51) :: real"
  have lo: "(2::real) ^ 0 \<le> \<bar>?x\<bar>" by simp
  have hi: "\<bar>?x\<bar> < 2 ^ Suc 0" by simp
  have "rne (?x * 2 ^ 52) = 4503599627370497"
    by (rule rne_unique) simp_all
  then show ?thesis using fl_eval_ge1[OF lo hi] by simp
qed

lemma fl_numerals: "fl 1 = 1" "fl 2 = 2" "fl 3 = 3"
  using fl_of_int[of 1] fl_of_int[of 2] fl_of_int[of 3] by simp_all

lemma cosineLoop_nonneg:
  assumes "\<forall>x\<in>set as. 0 \<le> x" "\<forall>y\<in>set bs. 0 \<le> y" "0 \<le> d" "0 \<le> na" "0 \<le> nb"
    "cosineLoop as bs (d, na, nb) = (d', na', nb')"
  shows "0 \<le> d' \<and> 0 \<le> na' \<and> 0 \<le> nb'"
  using assms
proof (induction as bs "(d, na, nb)" arbitrary: d na nb rule: cosineLoop.induct)
  case (1 a as b bs dotProduct normA normB)
  have "0 \<le> js_add dotProduct (js_mul a b)" using 1
    by (simp add: js_add_def js_mul_def fl_nonneg)
  moreover have "0 \<le> js_add normA (js_mul a a)" using 1
    by (simp add: js_add_def js_mul_def fl_nonneg)
  moreover have "0 \<le> js_add normB (js_mul b b)" using 1
    by (simp add: js_add_def js_mul_def fl_nonneg)
  ultimately show ?case using 1 by simp
qed simp_all

lemma cosineSimilarity_nonneg:
  assumes "\<forall>x\<in>set vecA. 0 \<le> x" "\<forall>y\<in>set vecB. 0 \<le> y"
  shows "0 \<le> cosineSimilarity vecA vecB"
proof (cases "length vecA = length vecB")
  case False then show ?thesis by (simp add: cosineSimilarity_def)
next
  case True
  obtain d na nb where l: "cosineLoop vecA vecB (0, 0, 0) = (d, na, nb)"
    by (metis prod_cases3)
  have nn: "0 \<le> d \<and> 0 \<le> na \<and> 0 \<le> nb"
    using cosineLoop_nonneg[OF assms _ _ _ l] by simp
  show ?thesis
  proof (cases "na = 0 \<or> nb = 0")
    case True then show ?thesis using l by (simp add: cosineSimilarity_def)
  next
    case False
    then have "0 < na" "0 < nb" using nn by auto
    then have "0 < js_sqrt na" "0 < js_sqrt nb" by (simp_all add: js_sqrt_def fl_pos)
    then have m: "0 < js_mul (js_sqrt na) (js_sqrt nb)" by (simp add: js_mul_def fl_pos)
    then have "js_div d (js_mul (js_sqrt na) (js_sqrt nb)) = fl (d / js_mul (js_sqrt na) (js_sqrt nb))"
      by (intro js_div_eq) simp
    then have "0 \<le> js_div d (js_mul (js_sqrt na) (js_sqrt nb))"
      using nn m by (simp add: fl_nonneg)
    then show ?thesis using l False \<open>length vecA = length vecB\<close> by (simp add: cosineSimilarity_def)
  qed
qed

lemma cosineLoop_norms:
  assumes "0 \<le> na" "0 \<le> nb" "cosineLoop as bs (d, na, nb) = (d', na', nb')"
  shows "0 \<le> na' \<and> 0 \<le> nb'"
  using assms
proof (induction as bs "(d, na, nb)" arbitrary: d na nb rule: cosineLoop.induct)
  case (1 a as b bs dotProduct normA normB)
  have "0 \<le> js_add normA (js_mul a a)" using 1
    by (simp add: js_add_def js_mul_def fl_nonneg)
  moreover have "0 \<le> js_add normB (js_mul b b)" using 1
    by (simp add: js_add_def js_mul_def fl_nonneg)
  ultimately show ?case using 1 by simp
qed simp_all

lemma cosine_divisor_pos:
  assumes "cosineLoop vecA vecB (0, 0, 0) = (d, na, nb)" "na \<noteq> 0" "nb \<noteq> 0"
  shows "0 < js_mul (js_sqrt na) (js_sqrt nb)"
proof -
  have "0 \<le> na \<and> 0 \<le> nb" using cosineLoop_norms[OF _ _ assms(1)] by simp
  then have "0 < na" "0 < nb" using assms(2,3) by simp_all
  then have "0 < js_sqrt na" "0 < js_sqrt nb" by (simp_all add: js_sqrt_def fl_pos)
  then show ?thesis by (simp add: js_mul_def fl_pos)
qed

lemma dot_self_nonneg: "0 \<le> dot xs xs"
  by (induction xs) (simp_all add: dot_def)

lemma dot_self_zero: "dot xs xs = 0 \<Longrightarrow> \<forall>x\<in>set xs. x = 0"
proof (induction xs)
  case Nil then show ?case by simp
next
  case (Cons a xs)
  have d: "dot (a # xs) (a # xs) = a * a + dot xs xs" by (simp add: dot_def)
  have nn: "0 \<le> dot xs xs" by (rule dot_self_nonneg)
  have "a * a = 0 \<and> dot xs xs = 0" using Cons.prems d nn
    by (smt (verit) zero_le_square)
  then show ?case using Cons.IH by simp
qed

lemma cosineLoop_zero_left:
  assumes "\<forall>x\<in>set as. x = 0"
  shows "fst (snd (cosineLoop as bs (d, 0, nb))) = 0"
  using assms
proof (induction as bs "(d, 0::real, nb)" arbitrary: d nb rule: cosineLoop.induct)
  case (1 a as b bs dotProduct normB)
  then show ?case by (simp add: js_add_def js_mul_def fl_zero)
qed simp_all

lemma cosineLoop_zero_right:
  assumes "\<forall>y\<in>set bs. y = 0"
  shows "snd (snd (cosineLoop as bs (d, na, 0))) = 0"
  using assms
proof (induction as bs "(d, na, 0::real)" arbitrary: d na rule: cosineLoop.induct)
  case (1 a as b bs dotProduct normA)
  then show ?case by (simp add: js_add_def js_mul_def fl_zero)
qed simp_all

lemma cosineSimilarity_zero_norm:
  assumes "dot vecA vecA = 0 \<or> dot vecB vecB = 0"
  shows "cosineSimilarity vecA vecB = 0"
proof -
  obtain d na nb where l: "cosineLoop vecA vecB (0, 0, 0) = (d, na, nb)"
    by (metis prod_cases3)
  have "na = 0 \<or> nb = 0"
    using assms cosineLoop_zero_left[OF dot_self_zero, of vecA vecB 0 0]
      cosineLoop_zero_right[OF dot_self_zero, of vecB vecA 0 0] l by auto
  then show ?thesis using l by (auto simp: cosineSimilarity_def)
qed


lemma dot_Cons: "dot (a # xs) (b # ys) = a * b + dot xs ys"
  by (simp add: dot_def)

lemma dot_Nil: "dot [] ys = 0" "dot xs [] = 0"
  by (simp_all add: dot_def)

lemma cauchy_step:
  fixes a b D A B :: real
  assumes "D\<^sup>2 \<le> A * B" "0 \<le> A" "0 \<le> B"
  shows "(a * b + D)\<^sup>2 \<le> (a * a + A) * (b * b + B)"
proof -
  define p where "p = \<bar>a\<bar> * sqrt B"
  define q where "q = \<bar>b\<bar> * sqrt A"
  have pq: "2 * p * q \<le> p\<^sup>2 + q\<^sup>2" by (rule sum_squares_bound)
  have p2: "p\<^sup>2 = a\<^sup>2 * B" using assms(3) by (simp add: p_def power_mult_distrib)
  have q2: "q\<^sup>2 = b\<^sup>2 * A" using assms(2) by (simp add: q_def power_mult_distrib)
  have "sqrt (D\<^sup>2) \<le> sqrt (A * B)" using assms(1) by (rule real_sqrt_le_mono)
  then have D: "\<bar>D\<bar> \<le> sqrt A * sqrt B" by (simp add: real_sqrt_mult)
  have "a * b * D \<le> \<bar>a * b\<bar> * \<bar>D\<bar>" by (metis abs_ge_self abs_mult)
  also have "\<dots> \<le> \<bar>a * b\<bar> * (sqrt A * sqrt B)" using D by (rule mult_left_mono) simp
  also have "\<dots> = p * q" by (simp add: p_def q_def abs_mult)
  finally have "2 * (a * b * D) \<le> a\<^sup>2 * B + b\<^sup>2 * A" using pq p2 q2 by linarith
  moreover have "(a * b + D)\<^sup>2 = a\<^sup>2 * b\<^sup>2 + 2 * (a * b * D) + D\<^sup>2"
    by (simp add: power2_eq_square algebra_simps)
  moreover have "(a * a + A) * (b * b + B) = a\<^sup>2 * b\<^sup>2 + (a\<^sup>2 * B + b\<^sup>2 * A) + A * B"
    by (simp add: power2_eq_square algebra_simps)
  ultimately show ?thesis using assms(1) by linarith
qed

lemma cauchy_schwarz_dot: "(dot xs ys)\<^sup>2 \<le> dot xs xs * dot ys ys"
proof (induction xs arbitrary: ys)
  case Nil then show ?case by (simp add: dot_Nil)
next
  case (Cons a xs)
  show ?case
  proof (cases ys)
    case Nil then show ?thesis by (simp add: dot_Nil)
  next
    case (Cons b bs)
    show ?thesis unfolding Cons dot_Cons
      by (rule cauchy_step[OF Cons.IH dot_self_nonneg dot_self_nonneg])
  qed
qed

lemma dot_nonneg:
  assumes "\<forall>x\<in>set xs. 0 \<le> x" "\<forall>y\<in>set ys. 0 \<le> y"
  shows "0 \<le> dot xs ys"
  using assms
proof (induction xs arbitrary: ys)
  case Nil then show ?case by (simp add: dot_Nil)
next
  case (Cons a xs)
  then show ?case by (cases ys) (simp_all add: dot_Nil dot_Cons)
qed

lemma cosine_exact_bounds:
  assumes "\<forall>x\<in>set xs. 0 \<le> x" "\<forall>y\<in>set ys. 0 \<le> y"
  shows "0 \<le> cosine_exact xs ys \<and> cosine_exact xs ys \<le> 1"
proof -
  let ?n = "sqrt (dot xs xs) * sqrt (dot ys ys)"
  have n0: "0 \<le> ?n" by (simp add: dot_self_nonneg)
  have d0: "0 \<le> dot xs ys" by (rule dot_nonneg[OF assms])
  have "sqrt ((dot xs ys)\<^sup>2) \<le> sqrt (dot xs xs * dot ys ys)"
    using cauchy_schwarz_dot by (rule real_sqrt_le_mono)
  then have le: "dot xs ys \<le> ?n" using d0 by (simp add: real_sqrt_mult)
  have "cosine_exact xs ys \<le> 1"
  proof (cases "?n = 0")
    case True
    have "cosine_exact xs ys = 0" unfolding cosine_exact_def True by simp
    then show ?thesis by simp
  next
    case False
    then have "0 < ?n" using n0 by linarith
    then show ?thesis using le by (simp add: cosine_exact_def)
  qed
  moreover have "0 \<le> cosine_exact xs ys" using d0 n0 by (simp add: cosine_exact_def)
  ultimately show ?thesis by simp
qed

lemma createSimpleEmbedding_nonneg: "\<forall>x\<in>set (createSimpleEmbedding text). 0 \<le> x"
  by (auto simp: createSimpleEmbedding_def Let_def)

lemma createSimpleEmbedding_length: "length (createSimpleEmbedding text) = 18"
  by (simp add: createSimpleEmbedding_def Let_def sustainabilityTerms_def)

lemma embedding_example:
  "createSimpleEmbedding ''packaging emission carbon'' = [1, 1, 1, 0, 0, 0, 0, 0, 0, 0, 0, 0, 0, 0, 0, 0, 0, 0]"
  by (simp add: createSimpleEmbedding_def sustainabilityTerms_def toLowerCase_def lower_char_def
      is_word_char_def split_plus.simps)

lemma cosine_example:
  "cosineSimilarity [1, 1, 1, 0, 0, 0, 0, 0, 0, 0, 0, 0, 0, 0, 0, 0, 0, 0] [1, 1, 1, 0, 0, 0, 0, 0, 0, 0, 0, 0, 0, 0, 0, 0, 0, 0]
     = 4503599627370497 / 2 ^ 52"
proof -
  have l: "cosineLoop [1, 1, 1, 0, 0, 0, 0, 0, 0, 0, 0, 0, 0, 0, 0, 0, 0, 0] [1, 1, 1, 0, 0, 0, 0, 0, 0, 0, 0, 0, 0, 0, 0, 0, 0, 0] (0, 0, 0) = (3, 3, 3)"
    by (simp add: js_add_def js_mul_def fl_zero fl_numerals)
  have s: "js_sqrt 3 = 7800463371553962 / 2 ^ 52"
    unfolding js_sqrt_def by (rule fl_sqrt3)
  have p: "js_mul (7800463371553962 / 2 ^ 52) (7800463371553962 / 2 ^ 52) = 6755399441055743 / 2 ^ 51"
    unfolding js_mul_def by (rule fl_sq)
  have q: "js_div 3 (6755399441055743 / 2 ^ 51) = 4503599627370497 / 2 ^ 52"
    using fl_quot by (simp add: js_div_eq)
  have "cosineSimilarity [1, 1, 1, 0, 0, 0, 0, 0, 0, 0, 0, 0, 0, 0, 0, 0, 0, 0] [1, 1, 1, 0, 0, 0, 0, 0, 0, 0, 0, 0, 0, 0, 0, 0, 0, 0]
      = js_div 3 (js_mul (js_sqrt 3) (js_sqrt 3))"
    unfolding cosineSimilarity_def l by simp
  also have "\<dots> = js_div 3 (js_mul (7800463371553962 / 2 ^ 52) (7800463371553962 / 2 ^ 52))"
    by (simp only: s)
  also have "\<dots> = js_div 3 (6755399441055743 / 2 ^ 51)"
    by (simp only: p)
  also have "\<dots> = 4503599627370497 / 2 ^ 52"
    by (rule q)
  finally show ?thesis .
qed

section \<open>Rounding error of the cosine\<close>

text \<open>
  One rounding changes a value by at most the relative error \<open>unit_roundoff\<close>. The
  loop of \<open>cosineSimilarity\<close> rounds twice per component, and the square roots, their
  product and the quotient round once each, so for non-negative vectors of length \<open>n\<close>
  the computed similarity exceeds the exact cosine by a factor of at most
  \<open>(1 + u)\<^bsup>2n+1\<^esup> / (1 - u)\<^bsup>2n+3\<^esup>\<close>.
\<close>

lemma rne_err: "\<bar>of_int (rne y) - y\<bar> \<le> 1/2"
proof -
  have "of_int \<lfloor>y\<rfloor> \<le> y" "y < of_int \<lfloor>y\<rfloor> + 1" by linarith+
  then show ?thesis by (auto simp: rne_def Let_def)
qed

lemma fl_rel: "\<bar>fl x - x\<bar> \<le> \<bar>x\<bar> * unit_roundoff"
proof (cases "x = 0")
  case True then show ?thesis by (simp add: fl_zero)
next
  case False
  define e where "e = \<lfloor>log 2 \<bar>x\<bar>\<rfloor> - 52"
  define p :: real where "p = 2 powr of_int e"
  have p0: "0 < p" by (simp add: p_def)
  have "of_int (e + 52) \<le> log 2 \<bar>x\<bar>" by (simp add: e_def)
  then have "2 powr of_int (e + 52) \<le> \<bar>x\<bar>" using False by (simp add: le_log_iff)
  then have px: "p * 2 ^ 52 \<le> \<bar>x\<bar>" by (simp add: p_def powr_add powr_realpow)
  have f: "fl x = of_int (rne (x / p)) * p" using False by (simp add: fl_def Let_def e_def p_def)
  have "fl x - x = (of_int (rne (x / p)) - x / p) * p" using p0 by (simp add: f field_simps)
  then have "\<bar>fl x - x\<bar> = \<bar>of_int (rne (x / p)) - x / p\<bar> * p" using p0 by (simp add: abs_mult)
  also have "\<dots> \<le> 1/2 * p" using rne_err[of "x / p"] p0 by (simp add: mult_right_mono)
  also have "\<dots> \<le> \<bar>x\<bar> * unit_roundoff" using px by (simp add: unit_roundoff_def field_simps)
  finally show ?thesis .
qed

lemma fl_upper: "0 \<le> x \<Longrightarrow> fl x \<le> x * (1 + unit_roundoff)"
  using fl_rel[of x] by (simp add: algebra_simps abs_le_iff)

lemma fl_lower: "0 \<le> x \<Longrightarrow> x * (1 - unit_roundoff) \<le> fl x"
  using fl_rel[of x] by (simp add: algebra_simps abs_le_iff)


lemma ur_bounds: "0 < unit_roundoff" "unit_roundoff < 1"
  by (simp_all add: unit_roundoff_def)

lemma up_mono: "k \<le> m \<Longrightarrow> (1 + unit_roundoff) ^ k \<le> (1 + unit_roundoff) ^ m"
  using ur_bounds by (simp add: power_increasing)

lemma down_mono: "k \<le> m \<Longrightarrow> (1 - unit_roundoff) ^ m \<le> (1 - unit_roundoff) ^ k"
  using ur_bounds by (simp add: power_decreasing)

lemma acc_upper:
  assumes "0 \<le> D" "0 \<le> t" "0 \<le> d" "d \<le> D * (1 + unit_roundoff) ^ k" "x * y = t"
  shows "js_add d (js_mul x y) \<le> (D + t) * (1 + unit_roundoff) ^ (k + 2)"
proof -
  let ?w = "1 + unit_roundoff"
  have w: "1 \<le> ?w" using ur_bounds by simp
  have m: "js_mul x y \<le> t * ?w" using fl_upper[of t] assms(2,5) by (simp add: js_mul_def)
  have m0: "0 \<le> js_mul x y" using assms(2,5) by (simp add: js_mul_def fl_nonneg)
  have "js_add d (js_mul x y) \<le> (d + js_mul x y) * ?w"
    using fl_upper[of "d + js_mul x y"] assms(3) m0 by (simp add: js_add_def)
  also have "\<dots> \<le> (D * ?w ^ k + t * ?w) * ?w"
    using assms(4) m w by (simp add: mult_right_mono)
  also have "\<dots> = D * ?w ^ (k + 1) + t * ?w ^ 2" by (simp add: algebra_simps power2_eq_square)
  also have "\<dots> \<le> D * ?w ^ (k + 2) + t * ?w ^ (k + 2)"
  proof -
    have "?w ^ (k + 1) \<le> ?w ^ (k + 2)" by (rule up_mono) simp
    moreover have "?w ^ 2 \<le> ?w ^ (k + 2)" by (rule up_mono) simp
    ultimately show ?thesis using assms(1,2) by (simp add: add_mono mult_left_mono)
  qed
  finally show ?thesis by (simp add: algebra_simps)
qed

lemma acc_lower:
  assumes "0 \<le> N" "0 \<le> n" "N * (1 - unit_roundoff) ^ k \<le> n"
  shows "(N + x * x) * (1 - unit_roundoff) ^ (k + 2) \<le> js_add n (js_mul x x)"
proof -
  let ?w = "1 - unit_roundoff"
  have w: "0 \<le> ?w" "?w \<le> 1" using ur_bounds by simp_all
  have t: "0 \<le> x * x" by simp
  have m: "x * x * ?w \<le> js_mul x x" using fl_lower[of "x * x"] by (simp add: js_mul_def)
  have m0: "0 \<le> js_mul x x" by (simp add: js_mul_def fl_nonneg)
  have "N * ?w ^ (k + 2) + x * x * ?w ^ (k + 2) \<le> N * ?w ^ (k + 1) + x * x * ?w ^ 2"
  proof -
    have "?w ^ (k + 2) \<le> ?w ^ (k + 1)" by (rule down_mono) simp
    moreover have "?w ^ (k + 2) \<le> ?w ^ 2" by (rule down_mono) simp
    ultimately show ?thesis using assms(1) t by (simp add: add_mono mult_left_mono del: power_Suc)
  qed
  also have "\<dots> = (N * ?w ^ k + x * x * ?w) * ?w" by (simp add: algebra_simps power2_eq_square)
  also have "\<dots> \<le> (n + js_mul x x) * ?w"
    using assms(3) m w by (simp add: mult_right_mono)
  also have "\<dots> \<le> js_add n (js_mul x x)"
    using fl_lower[of "n + js_mul x x"] assms(2) m0 by (simp add: js_add_def)
  finally show ?thesis by (simp add: algebra_simps)
qed


lemma cosineLoop_error:
  assumes "length as = length bs" "\<forall>x\<in>set as. 0 \<le> x" "\<forall>y\<in>set bs. 0 \<le> y"
    "0 \<le> D" "0 \<le> d" "d \<le> D * (1 + unit_roundoff) ^ k"
    "0 \<le> A" "0 \<le> na" "A * (1 - unit_roundoff) ^ k \<le> na"
    "0 \<le> B" "0 \<le> nb" "B * (1 - unit_roundoff) ^ k \<le> nb"
    "cosineLoop as bs (d, na, nb) = (d', na', nb')"
  shows "d' \<le> (D + dot as bs) * (1 + unit_roundoff) ^ (k + 2 * length as) \<and>
         (A + dot as as) * (1 - unit_roundoff) ^ (k + 2 * length as) \<le> na' \<and>
         (B + dot bs bs) * (1 - unit_roundoff) ^ (k + 2 * length as) \<le> nb'"
  using assms
proof (induction as bs "(d, na, nb)" arbitrary: d na nb D A B k rule: cosineLoop.induct)
  case (1 a as b bs dotProduct normA normB)
  have ab: "0 \<le> a * b" using 1 by simp
  have s1: "js_add dotProduct (js_mul a b) \<le> (D + a * b) * (1 + unit_roundoff) ^ (k + 2)"
    using acc_upper[OF "1.prems"(4) ab "1.prems"(5,6) refl] .
  have s2: "(A + a * a) * (1 - unit_roundoff) ^ (k + 2) \<le> js_add normA (js_mul a a)"
    using acc_lower[OF "1.prems"(7,8,9)] .
  have s3: "(B + b * b) * (1 - unit_roundoff) ^ (k + 2) \<le> js_add normB (js_mul b b)"
    using acc_lower[OF "1.prems"(10,11,12)] .
  have n1: "0 \<le> js_add dotProduct (js_mul a b)" using "1.prems"(5) ab
    by (simp add: js_add_def js_mul_def fl_nonneg)
  have n2: "0 \<le> js_add normA (js_mul a a)" using "1.prems"(8)
    by (simp add: js_add_def js_mul_def fl_nonneg)
  have n3: "0 \<le> js_add normB (js_mul b b)" using "1.prems"(11)
    by (simp add: js_add_def js_mul_def fl_nonneg)
  have l: "cosineLoop as bs (js_add dotProduct (js_mul a b), js_add normA (js_mul a a),
             js_add normB (js_mul b b)) = (d', na', nb')"
    using "1.prems"(13) by simp
  have len: "length as = length bs" using "1.prems"(1) by simp
  have pa: "\<forall>x\<in>set as. 0 \<le> x" and pb: "\<forall>y\<in>set bs. 0 \<le> y" using "1.prems"(2,3) by simp_all
  have D': "0 \<le> D + a * b" using "1.prems"(4) ab by simp
  have A': "0 \<le> A + a * a" using "1.prems"(7) by simp
  have B': "0 \<le> B + b * b" using "1.prems"(10) by simp
  have e: "k + 2 + 2 * length as = k + 2 * length (a # as)" by simp
  show ?case
    using "1.hyps"[OF len pa pb D' n1 s1 A' n2 s2 B' n3 s3 l]
    unfolding e dot_Cons by (simp only: add.assoc)
qed (simp_all add: dot_def)


lemma roundoff_37_39:
  "(1 + unit_roundoff) ^ 37 / (1 - unit_roundoff) ^ 39 \<le> 1 + 1 / 2 ^ 46"
proof -
  let ?W = "1 + unit_roundoff" and ?w = "1 - unit_roundoff"
  have W: "0 \<le> ?W" and w: "0 < ?w" using ur_bounds by simp_all
  have "?W * ?w = 1 - unit_roundoff * unit_roundoff" by (simp add: algebra_simps)
  then have a: "?W * ?w \<le> 1" by simp
  have "0 \<le> ?W * ?w" using W w by simp
  then have "(?W * ?w) ^ 37 \<le> 1" using a by (rule power_le_one)
  then have b: "?W ^ 37 * ?w ^ 37 \<le> 1" by (simp only: power_mult_distrib)
  have w37: "0 < ?w ^ 37" and w39: "0 < ?w ^ 39" using w by simp_all
  have c: "?W ^ 37 \<le> 1 / ?w ^ 37" using b w37 by (simp add: pos_le_divide_eq)
  have "?w ^ 37 * ?w ^ 39 = ?w ^ (37 + 39)" by (rule power_add [symmetric])
  then have p: "?w ^ 37 * ?w ^ 39 = ?w ^ 76" by simp
  have "1 + real 76 * (- unit_roundoff) \<le> (1 + (- unit_roundoff)) ^ 76"
    by (rule Bernoulli_inequality) (use ur_bounds in simp)
  then have bern: "1 - 76 * unit_roundoff \<le> ?w ^ 76" by simp
  have low: "0 < 1 - 76 * unit_roundoff" by (simp add: unit_roundoff_def)
  have "?W ^ 37 / ?w ^ 39 \<le> 1 / ?w ^ 37 / ?w ^ 39"
    using c w39 by (simp only: divide_right_mono less_imp_le)
  also have "\<dots> = 1 / ?w ^ 76" using p by (simp only: divide_divide_eq_left)
  also have "\<dots> \<le> 1 / (1 - 76 * unit_roundoff)"
    using bern low by (intro divide_left_mono) simp_all
  also have "\<dots> \<le> 1 + 1 / 2 ^ 46" by (simp add: unit_roundoff_def)
  finally show ?thesis .
qed

lemma power_2n3: "(x::real) ^ (2 * n + 3) = x ^ (n + 1) * x ^ (n + 1) * x"
proof -
  have "2 * n + 3 = (n + 1) + (n + 1) + 1" by simp
  then have "x ^ (2 * n + 3) = x ^ ((n + 1) + (n + 1) + 1)" by (rule arg_cong)
  also have "\<dots> = x ^ (n + 1) * x ^ (n + 1) * x ^ 1" by (simp only: power_add)
  finally show ?thesis by (simp only: power_one_right)
qed

lemma power_2n1: "(x::real) ^ (2 * n + 1) = x ^ (2 * n) * x"
  by (simp only: power_add power_one_right)

lemma sqrt_power_2n: "0 \<le> (x::real) \<Longrightarrow> sqrt (x ^ (2 * n)) = x ^ n"
proof -
  assume x: "0 \<le> x"
  have "(x ^ n)\<^sup>2 = x ^ (2 * n)" by (simp add: power_mult [symmetric] mult.commute)
  moreover have "0 \<le> x ^ n" using x by simp
  ultimately show ?thesis by (rule real_sqrt_unique)
qed

lemma js_sqrt_lower:
  assumes "0 < N" "0 < w" "w \<le> 1" "w = 1 - unit_roundoff" "N * w ^ (2 * n) \<le> nrm"
  shows "sqrt N * w ^ (n + 1) \<le> js_sqrt nrm"
proof -
  have "0 < N * w ^ (2 * n)" using assms(1,2) by simp
  then have npos: "0 < nrm" using assms(5) by linarith
  have "sqrt N * w ^ n = sqrt N * sqrt (w ^ (2 * n))"
    using sqrt_power_2n[of w n] assms(2) by simp
  also have "\<dots> = sqrt (N * w ^ (2 * n))" by (simp only: real_sqrt_mult)
  also have "\<dots> \<le> sqrt nrm" using assms(5) by simp
  finally have "sqrt N * w ^ n * w \<le> sqrt nrm * w" using assms(2) by (simp only: mult_right_mono less_imp_le)
  also have "\<dots> \<le> js_sqrt nrm" using fl_lower[of "sqrt nrm"] npos
    unfolding assms(4) js_sqrt_def by simp
  finally show ?thesis by (simp only: power_add power_one_right mult.assoc)
qed


lemma cosineSimilarity_upper:
  assumes "length vecA = length vecB" "\<forall>x\<in>set vecA. 0 \<le> x" "\<forall>y\<in>set vecB. 0 \<le> y"
  shows "cosineSimilarity vecA vecB
    \<le> (1 + unit_roundoff) ^ (2 * length vecA + 1) / (1 - unit_roundoff) ^ (2 * length vecA + 3)"
proof -
  define W where "W = 1 + unit_roundoff"
  define w where "w = 1 - unit_roundoff"
  define n where "n = length vecA"
  have W: "1 \<le> W" "0 < W" and w: "0 < w" "w \<le> 1" using ur_bounds by (simp_all add: W_def w_def)
  have bpos: "0 \<le> W ^ (2 * n + 1) / w ^ (2 * n + 3)" using W w by simp
  have "cosineSimilarity vecA vecB \<le> W ^ (2 * n + 1) / w ^ (2 * n + 3)"
  proof (cases "dot vecA vecA = 0 \<or> dot vecB vecB = 0")
    case True
    then have "cosineSimilarity vecA vecB = 0" by (rule cosineSimilarity_zero_norm)
    then show ?thesis using bpos by simp
  next
    case False
    define A where "A = dot vecA vecA"
    define B where "B = dot vecB vecB"
    define D where "D = dot vecA vecB"
    have A: "0 < A" and B: "0 < B" using False dot_self_nonneg[of vecA] dot_self_nonneg[of vecB]
      by (simp_all add: less_eq_real_def A_def B_def)
    obtain d na nb where l: "cosineLoop vecA vecB (0, 0, 0) = (d, na, nb)"
      by (metis prod_cases3)
    have err: "d \<le> (0 + dot vecA vecB) * (1 + unit_roundoff) ^ (0 + 2 * length vecA) \<and>
         (0 + dot vecA vecA) * (1 - unit_roundoff) ^ (0 + 2 * length vecA) \<le> na \<and>
         (0 + dot vecB vecB) * (1 - unit_roundoff) ^ (0 + 2 * length vecA) \<le> nb"
      by (rule cosineLoop_error[OF assms _ _ _ _ _ _ _ _ _ l]) simp_all
    have d: "d \<le> D * W ^ (2 * n)" and na: "A * w ^ (2 * n) \<le> na"
      and nb: "B * w ^ (2 * n) \<le> nb"
      using err by (simp_all add: D_def A_def B_def W_def w_def n_def)
    have nn: "0 \<le> d" using cosineLoop_nonneg[OF assms(2,3) _ _ _ l] by simp
    have "0 < A * w ^ (2 * n)" "0 < B * w ^ (2 * n)" using A B w by simp_all
    then have napos: "0 < na" and nbpos: "0 < nb" using na nb by linarith+
    have sa: "sqrt A * w ^ (n + 1) \<le> js_sqrt na"
      using A w w_def na by (rule js_sqrt_lower)
    have sb: "sqrt B * w ^ (n + 1) \<le> js_sqrt nb"
      using B w w_def nb by (rule js_sqrt_lower)
    define S where "S = sqrt A * sqrt B"
    have S: "0 < S" using A B by (simp add: S_def)
    have la: "0 \<le> sqrt A * w ^ (n + 1)" and lb: "0 \<le> sqrt B * w ^ (n + 1)"
      using A B w by simp_all
    have sapos: "0 \<le> js_sqrt na" using napos by (simp add: js_sqrt_def fl_nonneg)
    have sbpos: "0 \<le> js_sqrt nb" using nbpos by (simp add: js_sqrt_def fl_nonneg)
    have "(sqrt A * w ^ (n + 1)) * (sqrt B * w ^ (n + 1)) \<le> js_sqrt na * js_sqrt nb"
      using sa sb la lb by (rule mult_mono') 
    then have "(sqrt A * w ^ (n + 1)) * (sqrt B * w ^ (n + 1)) * w \<le> js_sqrt na * js_sqrt nb * w"
      using w(1) by (simp only: mult_right_mono less_imp_le)
    moreover have "S * w ^ (2 * n + 3) = (sqrt A * w ^ (n + 1)) * (sqrt B * w ^ (n + 1)) * w"
      unfolding power_2n3 S_def by (simp only: ac_simps)
    moreover have "js_sqrt na * js_sqrt nb * w \<le> js_mul (js_sqrt na) (js_sqrt nb)"
      using fl_lower[of "js_sqrt na * js_sqrt nb"] sapos sbpos
      unfolding w_def js_mul_def by simp
    ultimately have m: "S * w ^ (2 * n + 3) \<le> js_mul (js_sqrt na) (js_sqrt nb)"
      by linarith
    have mpos: "0 < S * w ^ (2 * n + 3)" using S w by simp
    have "D \<le> sqrt (A * B)" unfolding D_def A_def B_def
      using cauchy_schwarz_dot[of vecA vecB] by (rule real_le_rsqrt)
    then have "D \<le> S" by (simp only: S_def real_sqrt_mult)
    then have "D * W ^ (2 * n) \<le> S * W ^ (2 * n)" using W(2) by (simp only: mult_right_mono less_imp_le zero_le_power)
    then have dS: "d \<le> S * W ^ (2 * n)" using d by linarith
    have SW: "0 \<le> S * W ^ (2 * n)" using S W by simp
    have q: "d / js_mul (js_sqrt na) (js_sqrt nb) \<le> S * W ^ (2 * n) / (S * w ^ (2 * n + 3))"
      using SW dS mpos m by (rule frac_le)
    have "S * W ^ (2 * n) / (S * w ^ (2 * n + 3)) = W ^ (2 * n) / w ^ (2 * n + 3)"
    proof -
      have "S \<noteq> 0" using S by simp
      then show ?thesis by (rule mult_divide_mult_cancel_left)
    qed
    then have q': "d / js_mul (js_sqrt na) (js_sqrt nb) \<le> W ^ (2 * n) / w ^ (2 * n + 3)"
      using q by simp
    have mp: "0 < js_mul (js_sqrt na) (js_sqrt nb)" using m mpos by linarith
    have q0: "0 \<le> d / js_mul (js_sqrt na) (js_sqrt nb)" using nn mp by simp
    have "js_div d (js_mul (js_sqrt na) (js_sqrt nb))
            \<le> d / js_mul (js_sqrt na) (js_sqrt nb) * W"
      using fl_upper[OF q0] mp unfolding W_def by (simp add: js_div_eq)
    also have "\<dots> \<le> W ^ (2 * n) / w ^ (2 * n + 3) * W"
      using q' W(2) by (simp only: mult_right_mono less_imp_le)
    also have "\<dots> = W ^ (2 * n + 1) / w ^ (2 * n + 3)"
      unfolding power_2n1 by (simp only: times_divide_eq_left)
    finally have r: "js_div d (js_mul (js_sqrt na) (js_sqrt nb))
            \<le> W ^ (2 * n + 1) / w ^ (2 * n + 3)" .
    have "na \<noteq> 0" "nb \<noteq> 0" using napos nbpos by simp_all
    then have "cosineSimilarity vecA vecB = js_div d (js_mul (js_sqrt na) (js_sqrt nb))"
      using l assms(1) by (simp add: cosineSimilarity_def)
    then show ?thesis using r by simp
  qed
  then show ?thesis unfolding W_def w_def n_def .
qed


lemma embedding_similarity_upper:
  "cosineSimilarity (createSimpleEmbedding s) (createSimpleEmbedding t) \<le> 1 + 1 / 2 ^ 46"
proof -
  have len: "length (createSimpleEmbedding s) = length (createSimpleEmbedding t)"
    by (simp only: createSimpleEmbedding_length)
  have e: "2 * length (createSimpleEmbedding s) + 1 = 37"
    "2 * length (createSimpleEmbedding s) + 3 = 39"
    by (simp_all add: createSimpleEmbedding_length)
  have "cosineSimilarity (createSimpleEmbedding s) (createSimpleEmbedding t)
      \<le> (1 + unit_roundoff) ^ (2 * length (createSimpleEmbedding s) + 1)
          / (1 - unit_roundoff) ^ (2 * length (createSimpleEmbedding s) + 3)"
    using len createSimpleEmbedding_nonneg createSimpleEmbedding_nonneg
    by (rule cosineSimilarity_upper)
  then have "cosineSimilarity (createSimpleEmbedding s) (createSimpleEmbedding t)
      \<le> (1 + unit_roundoff) ^ 37 / (1 - unit_roundoff) ^ 39"
    unfolding e .
  then show ?thesis using roundoff_37_39 by (rule order_trans)
qed


section \<open>Cosine similarity\<close>

text \<open>
  C10. For input vectors of differing lengths \<open>cosineSimilarity\<close> returns 0: it raises
  no error and produces no value out of range. So a stored chunk whose embedding has
  another dimension than the query embedding enters the list of similarities of
  \<open>queryKnowledge\<close> with similarity 0.
\<close>

theorem cosineSimilarity_length_mismatch:
  assumes "length vecA \<noteq> length vecB"
  shows "cosineSimilarity vecA vecB = 0 \<and>
    (\<forall>st query cid doc.
       (cid, doc) \<in> set (vectorStore st) \<and> createSimpleEmbedding query = vecA \<and> embedding doc = vecB
       \<longrightarrow> \<lparr>entry_id = cid, similarity = 0, entry_content = content doc,
             entry_metadata = metadata doc\<rparr> \<in> set (similarities st query))"
proof -
  have z: "cosineSimilarity vecA vecB = 0" using assms by (simp add: cosineSimilarity_def)
  have "\<lparr>entry_id = cid, similarity = 0, entry_content = content doc,
          entry_metadata = metadata doc\<rparr> \<in> set (similarities st query)"
    if "(cid, doc) \<in> set (vectorStore st)" "createSimpleEmbedding query = vecA" "embedding doc = vecB"
    for st query cid doc
  proof -
    have "(\<lambda>(id, doc). \<lparr>entry_id = id,
             similarity = cosineSimilarity (createSimpleEmbedding query) (embedding doc),
             entry_content = content doc, entry_metadata = metadata doc\<rparr>) (cid, doc)
          \<in> set (similarities st query)"
      unfolding similarities_def Let_def set_map using that(1) by (rule imageI)
    then show ?thesis using that(2,3) z by simp
  qed
  then show ?thesis using z by blast
qed

theorem cosineSimilarity_length_mismatch_witness:
  "length (createSimpleEmbedding ''carbon'') \<noteq> length [1, 2 :: real] \<and>
   cosineSimilarity (createSimpleEmbedding ''carbon'') [1, 2] = 0 \<and>
   \<lparr>entry_id = ''c0'', similarity = 0, entry_content = ''old'',
     entry_metadata = \<lparr>source = ''f.txt'', chunk = 0\<rparr>\<rparr>
   \<in> set (similarities
        \<lparr>knowledgeBase = [],
         vectorStore = [(''c0'', \<lparr>content = ''old'', embedding = [1, 2],
                                  metadata = \<lparr>source = ''f.txt'', chunk = 0\<rparr>\<rparr>)],
         documentChunks = []\<rparr> ''carbon'')"
proof -
  have h: "length (createSimpleEmbedding ''carbon'') \<noteq> length [1, 2 :: real]"
    by (simp add: createSimpleEmbedding_length)
  let ?doc = "\<lparr>content = ''old'', embedding = [1, 2 :: real],
               metadata = \<lparr>source = ''f.txt'', chunk = 0\<rparr>\<rparr>"
  let ?st = "\<lparr>knowledgeBase = [], vectorStore = [(''c0'', ?doc)], documentChunks = []\<rparr>"
  note t = cosineSimilarity_length_mismatch[OF h]
  from t have a: "cosineSimilarity (createSimpleEmbedding ''carbon'') [1, 2] = 0" by simp
  from t have "(''c0'', ?doc) \<in> set (vectorStore ?st) \<and>
      createSimpleEmbedding ''carbon'' = createSimpleEmbedding ''carbon'' \<and> embedding ?doc = [1, 2]
      \<longrightarrow> \<lparr>entry_id = ''c0'', similarity = 0, entry_content = content ?doc,
             entry_metadata = metadata ?doc\<rparr> \<in> set (similarities ?st ''carbon'')"
    by blast
  then have b: "\<lparr>entry_id = ''c0'', similarity = 0, entry_content = ''old'',
      entry_metadata = \<lparr>source = ''f.txt'', chunk = 0\<rparr>\<rparr> \<in> set (similarities ?st ''carbon'')"
    by simp
  show ?thesis using h a b by simp
qed

text \<open>
  C5, as the claim states it, fails: the computed similarity of an embedding with itself
  exceeds 1 when the rounding of the square roots makes the denominator smaller than the
  dot product. For the embedding of \<open>packaging emission carbon\<close> (three ones) the
  result is \<open>1 + 2\<^sup>-\<^sup>5\<^sup>2\<close>, printed as 1.0000000000000002.
\<close>

theorem cosineSimilarity_exceeds_one:
  "1 < cosineSimilarity (createSimpleEmbedding ''packaging emission carbon'')
         (createSimpleEmbedding ''packaging emission carbon'')"
  unfolding embedding_example cosine_example by simp

text \<open>
  C5 (amended). For every pair of embeddings produced by \<open>createSimpleEmbedding\<close>, the
  computed cosine similarity lies in \<open>[0, 1 + 2\<^sup>-\<^sup>4\<^sup>6]\<close>: at least 0, and above 1 by
  rounding error only. It is exactly 0 whenever one of the two vectors has zero norm,
  and no division by zero occurs: whenever the loop leaves two norms other than 0, which
  is when the division is reached, the divisor is not 0. The cosine in exact arithmetic,
  which the computation approximates, lies in \<open>[0, 1]\<close>.
\<close>

theorem cosineSimilarity_embeddings:
  "(let a = createSimpleEmbedding s; b = createSimpleEmbedding t in
     0 \<le> cosineSimilarity a b \<and> cosineSimilarity a b \<le> 1 + 1 / 2 ^ 46 \<and>
     (dot a a = 0 \<or> dot b b = 0 \<longrightarrow> cosineSimilarity a b = 0) \<and>
     (\<forall>dotProduct normA normB.
        cosineLoop a b (0, 0, 0) = (dotProduct, normA, normB) \<and> normA \<noteq> 0 \<and> normB \<noteq> 0
        \<longrightarrow> js_mul (js_sqrt normA) (js_sqrt normB) \<noteq> 0) \<and>
     0 \<le> cosine_exact a b \<and> cosine_exact a b \<le> 1)"
proof -
  let ?a = "createSimpleEmbedding s" and ?b = "createSimpleEmbedding t"
  have nonneg: "0 \<le> cosineSimilarity ?a ?b"
    using createSimpleEmbedding_nonneg createSimpleEmbedding_nonneg by (rule cosineSimilarity_nonneg)
  have upper: "cosineSimilarity ?a ?b \<le> 1 + 1 / 2 ^ 46" by (rule embedding_similarity_upper)
  have zero: "dot ?a ?a = 0 \<or> dot ?b ?b = 0 \<longrightarrow> cosineSimilarity ?a ?b = 0"
    using cosineSimilarity_zero_norm[of ?a ?b] by blast
  have divisor: "js_mul (js_sqrt normA) (js_sqrt normB) \<noteq> 0"
    if "cosineLoop ?a ?b (0, 0, 0) = (dotProduct, normA, normB) \<and> normA \<noteq> 0 \<and> normB \<noteq> 0"
    for dotProduct normA normB
    using cosine_divisor_pos[of ?a ?b dotProduct normA normB] that by simp
  have exact: "0 \<le> cosine_exact ?a ?b \<and> cosine_exact ?a ?b \<le> 1"
    using createSimpleEmbedding_nonneg createSimpleEmbedding_nonneg by (rule cosine_exact_bounds)
  show ?thesis unfolding Let_def using nonneg upper zero divisor exact by blast
qed

theorem cosineSimilarity_embeddings_witness:
  "dot (createSimpleEmbedding '''') (createSimpleEmbedding '''') = 0 \<and>
   cosineSimilarity (createSimpleEmbedding ''carbon'') (createSimpleEmbedding '''') = 0 \<and>
   cosineLoop (createSimpleEmbedding ''packaging emission carbon'')
     (createSimpleEmbedding ''packaging emission carbon'') (0, 0, 0) = (3, 3, 3) \<and>
   js_mul (js_sqrt 3) (js_sqrt 3) \<noteq> 0 \<and>
   cosineSimilarity (createSimpleEmbedding ''packaging emission carbon'')
     (createSimpleEmbedding ''packaging emission carbon'') \<le> 1 + 1 / 2 ^ 46 \<and>
   0 \<le> cosine_exact (createSimpleEmbedding ''carbon'') (createSimpleEmbedding '''') \<and>
   cosine_exact (createSimpleEmbedding ''carbon'') (createSimpleEmbedding '''') \<le> 1"
proof -
  have e: "createSimpleEmbedding '''' = [0, 0, 0, 0, 0, 0, 0, 0, 0, 0, 0, 0, 0, 0, 0, 0, 0, 0]"
    by (simp add: createSimpleEmbedding_def sustainabilityTerms_def toLowerCase_def split_plus.simps)
  have z: "dot (createSimpleEmbedding '''') (createSimpleEmbedding '''') = 0"
    unfolding e by (simp add: dot_def)
  have l: "cosineLoop (createSimpleEmbedding ''packaging emission carbon'')
     (createSimpleEmbedding ''packaging emission carbon'') (0, 0, 0) = (3, 3, 3)"
    unfolding embedding_example by (simp add: js_add_def js_mul_def fl_zero fl_numerals)
  note t1 = cosineSimilarity_embeddings[of "''carbon''" "''''", unfolded Let_def]
  note t2 = cosineSimilarity_embeddings[of "''packaging emission carbon''"
      "''packaging emission carbon''", unfolded Let_def]
  have n: "(3::real) \<noteq> 0" by simp
  from t2 l n have d: "js_mul (js_sqrt 3) (js_sqrt 3) \<noteq> 0" by blast
  show ?thesis using z l d t1 t2 by blast
qed

section \<open>Ranking and confidence\<close>


lemma slice_to_take: "0 \<le> k \<Longrightarrow> slice_to k xs = take (nat k) xs"
  by (simp add: slice_to_def)

lemma length_ranked: "length (ranked sims) = length sims"
  by (simp add: ranked_def)

lemma length_similarities: "length (similarities st query) = length (vectorStore st)"
  by (simp add: similarities_def Let_def)







lemma js_lit_01: "js_lit 0.1 = 7205759403792794 / 2 ^ 56"
proof -
  let ?x = "0.1 :: real"
  have lo: "1 / 2 ^ 4 \<le> \<bar>?x\<bar>" by simp
  have hi: "\<bar>?x\<bar> < 2 / 2 ^ 4" by simp
  have "rne (?x * 2 ^ (52 + 4)) = 7205759403792794"
    by (rule rne_unique) simp_all
  then show ?thesis unfolding js_lit_def using fl_eval_lt1[OF lo hi] by simp
qed

lemma js_lit_095: "js_lit 0.95 = 8556839292003942 / 2 ^ 53"
proof -
  let ?x = "0.95 :: real"
  have lo: "1 / 2 ^ 1 \<le> \<bar>?x\<bar>" by simp
  have hi: "\<bar>?x\<bar> < 2 / 2 ^ 1" by simp
  have "rne (?x * 2 ^ (52 + 1)) = 8556839292003942"
    by (rule rne_unique) simp_all
  then show ?thesis unfolding js_lit_def using fl_eval_lt1[OF lo hi] by simp
qed

lemma clamp_bounds: "1 / 10 \<le> min (js_lit 0.95) (max (js_lit 0.1) x) \<and> min (js_lit 0.95) (max (js_lit 0.1) x) \<le> 95 / 100"
  unfolding js_lit_01 js_lit_095 by (simp add: min_def max_def)

lemma calculateConfidence_nonempty:
  assumes "rs \<noteq> []"
  shows "calculateConfidence rs = min (js_lit 0.95) (max (js_lit 0.1) (js_mean (map similarity rs)))"
  using assms by (simp add: calculateConfidence_def js_mean_def Let_def foldl_map)









text \<open>
  C3, as the claim states it, fails when the query returns no result: on an empty
  corpus the aggregate confidence is 0, outside \<open>[0.1, 0.95]\<close>.
\<close>

theorem confidence_empty_corpus:
  "confidence (snd (queryKnowledge example_env empty_state ''What is our GHG reduction target?'' 5)) = 0"
  by (simp add: queryKnowledge_def queryResults_def ensureStore_def initializeVectorStore_def
      empty_state_def similarities_def ranked_def slice_to_def calculateConfidence_def)

text \<open>
  C3 (amended). For every retrieval query that returns at least one result, the
  aggregate confidence equals the mean similarity of the returned results clamped into
  \<open>[0.1, 0.95]\<close> (the bounds being the doubles nearest to 0.1 and 0.95), so it lies in
  \<open>[0.1, 0.95]\<close> and is neither 0 nor 1; when the query returns no result (an empty
  corpus, or \<open>topK = 0\<close>) the confidence is exactly 0.
\<close>

theorem queryKnowledge_confidence:
  "(let rs = queryResults ev st query k; c = confidence (snd (queryKnowledge ev st query k)) in
     (rs = [] \<longrightarrow> c = 0) \<and>
     (rs \<noteq> [] \<longrightarrow> c = min (js_lit 0.95) (max (js_lit 0.1) (js_mean (map similarity rs)))
        \<and> 1 / 10 \<le> c \<and> c \<le> 95 / 100))"
proof -
  let ?rs = "queryResults ev st query k"
  have c: "confidence (snd (queryKnowledge ev st query k)) = calculateConfidence ?rs"
    by (simp add: queryKnowledge_def Let_def)
  have e: "?rs = [] \<Longrightarrow> calculateConfidence ?rs = 0" by (simp add: calculateConfidence_def)
  show ?thesis unfolding Let_def c using e calculateConfidence_nonempty[of ?rs] clamp_bounds
    by auto
qed

theorem queryKnowledge_confidence_witness:
  "queryResults example_env empty_state ''carbon'' 5 = [] \<and>
   confidence (snd (queryKnowledge example_env empty_state ''carbon'' 5)) = 0 \<and>
   queryResults example_env example_state ''carbon'' 5 \<noteq> [] \<and>
   1 / 10 \<le> confidence (snd (queryKnowledge example_env example_state ''carbon'' 5)) \<and>
   confidence (snd (queryKnowledge example_env example_state ''carbon'' 5)) \<le> 95 / 100"
proof -
  have e: "queryResults example_env empty_state ''carbon'' 5 = []"
    by (simp add: queryResults_def ensureStore_def initializeVectorStore_def empty_state_def
        similarities_def ranked_def slice_to_def)
  have "length (queryResults example_env example_state ''carbon'' 5) = 3"
    by (simp add: queryResults_def ensureStore_def example_state_def slice_to_take
        length_ranked length_similarities)
  then have n: "queryResults example_env example_state ''carbon'' 5 \<noteq> []" by auto
  note t1 = queryKnowledge_confidence[of example_env empty_state "''carbon''" 5, unfolded Let_def]
  note t2 = queryKnowledge_confidence[of example_env example_state "''carbon''" 5, unfolded Let_def]
  from t1 e have z: "confidence (snd (queryKnowledge example_env empty_state ''carbon'' 5)) = 0"
    by blast
  from t2 n have b: "1 / 10 \<le> confidence (snd (queryKnowledge example_env example_state ''carbon'' 5)) \<and>
      confidence (snd (queryKnowledge example_env example_state ''carbon'' 5)) \<le> 95 / 100"
    by blast
  show ?thesis using e z n b by blast
qed

section \<open>Chunking\<close>


lemma trim_empty_iff: "trim s = [] \<longleftrightarrow> (\<forall>c\<in>set s. is_space c)"
proof
  assume "trim s = []"
  then have "dropWhile is_space (rev (dropWhile is_space s)) = []" by (simp add: trim_def)
  then have a: "\<forall>c\<in>set (dropWhile is_space s). is_space c" by (simp add: dropWhile_eq_Nil_conv)
  have "dropWhile is_space s = []"
  proof (rule ccontr)
    assume n: "dropWhile is_space s \<noteq> []"
    then have "\<not> is_space (hd (dropWhile is_space s))" by (rule hd_dropWhile)
    moreover have "hd (dropWhile is_space s) \<in> set (dropWhile is_space s)" using n by simp
    ultimately show False using a by blast
  qed
  then show "\<forall>c\<in>set s. is_space c" by (simp add: dropWhile_eq_Nil_conv)
next
  assume "\<forall>c\<in>set s. is_space c"
  then show "trim s = []" by (auto simp: trim_def dropWhile_eq_Nil_conv dest: set_dropWhileD)
qed

lemma split_plus_total:
  "sum_list (map length (split_plus sep s)) + length (split_plus sep s) \<le> length s + 1"
proof (induction sep s rule: split_plus.induct)
  case (1 sep s)
  let ?piece = "takeWhile (\<lambda>c. \<not> sep c) s"
  let ?rest = "dropWhile (\<lambda>c. \<not> sep c) s"
  have s: "length s = length ?piece + length ?rest"
    by (metis length_append takeWhile_dropWhile_id)
  show ?case
  proof (cases "?rest = []")
    case True
    then show ?thesis using s by (subst (1 2) split_plus.simps) (simp add: Let_def)
  next
    case False
    then have "sep (hd ?rest)" using hd_dropWhile[of "\<lambda>c. \<not> sep c" s] by simp
    then have "length (dropWhile sep ?rest) < length ?rest" using False
      by (cases ?rest) (auto simp: le_imp_less_Suc length_dropWhile_le)
    moreover have "sum_list (map length (split_plus sep (dropWhile sep ?rest)))
          + length (split_plus sep (dropWhile sep ?rest)) \<le> length (dropWhile sep ?rest) + 1"
      using "1.IH"[OF refl refl False] .
    ultimately show ?thesis using s False
      by (subst (1 2) split_plus.simps) (simp add: Let_def)
  qed
qed

lemma sum_filter_le: "sum_list (map length (filter P xs)) + length (filter P xs) \<le> sum_list (map length xs) + length xs"
  by (induction xs) auto

lemma sentences_total: "sum_list (map length (sentences text)) + length (sentences text) \<le> length text + 1"
  using sum_filter_le[of "\<lambda>s. length (trim s) > 0" "split_plus sentence_end text"]
    split_plus_total[of sentence_end "text"]
  unfolding sentences_def by linarith

lemma sentences_nonblank: "s \<in> set (sentences text) \<Longrightarrow> trim s \<noteq> []"
  by (simp add: sentences_def)

lemma fold_no_close:
  assumes "int (length cur + sum_list (map length ss) + length ss) \<le> chunkSize + 1"
  shows "fst (foldl (splitStep chunkSize chunkOverlap) (chunks, cur) ss) = chunks"
  using assms
proof (induction ss arbitrary: cur)
  case Nil then show ?case by simp
next
  case (Cons s ss)
  have nc: "\<not> closes chunkSize cur s" using Cons.prems by (simp add: closes_def)
  let ?cur' = "cur @ (if cur \<noteq> [] then '' '' else []) @ s"
  have st: "splitStep chunkSize chunkOverlap (chunks, cur) s = (chunks, ?cur')"
    using nc by (simp add: splitStep_def)
  have "int (length ?cur' + sum_list (map length ss) + length ss) \<le> chunkSize + 1"
    using Cons.prems by simp
  then show ?case using Cons.IH[of ?cur'] st by simp
qed

lemma step_nonblank:
  assumes "trim s \<noteq> []"
  shows "trim (snd (splitStep chunkSize chunkOverlap st s)) \<noteq> []"
proof -
  obtain c where "c \<in> set s" "\<not> is_space c" using assms trim_empty_iff by blast
  moreover have "set s \<subseteq> set (snd (splitStep chunkSize chunkOverlap st s))"
    by (simp add: splitStep_def Let_def) blast
  ultimately have "\<exists>c\<in>set (snd (splitStep chunkSize chunkOverlap st s)). \<not> is_space c"
    by blast
  then show ?thesis using trim_empty_iff by blast
qed

lemma fold_nonblank:
  assumes "\<forall>s\<in>set ss. trim s \<noteq> []" "ss \<noteq> [] \<or> trim (snd st) \<noteq> []"
  shows "trim (snd (foldl (splitStep chunkSize chunkOverlap) st ss)) \<noteq> []"
  using assms
proof (induction ss arbitrary: st)
  case Nil then show ?case by simp
next
  case (Cons s ss)
  have "trim (snd (splitStep chunkSize chunkOverlap st s)) \<noteq> []"
    using Cons.prems(1) by (simp add: step_nonblank)
  then show ?case using Cons.IH[of "splitStep chunkSize chunkOverlap st s"] Cons.prems(1) by simp
qed

text \<open>
  A text without a non-blank sentence gives no chunk, and a text with one that is shorter
  than \<open>chunkSize\<close> gives exactly one chunk: joining the sentences by single spaces
  never makes the chunk longer than the text.
\<close>

lemma splitText_no_sentence: "sentences text = [] \<Longrightarrow> splitText text chunkSize chunkOverlap = []"
  by (simp add: splitText_def trim_def)

lemma splitText_single:
  assumes "sentences text \<noteq> []" "int (length text) < chunkSize"
  shows "length (splitText text chunkSize chunkOverlap) = 1"
proof -
  let ?st = "foldl (splitStep chunkSize chunkOverlap) ([], []) (sentences text)"
  have "int (length ([]::string) + sum_list (map length (sentences text)) + length (sentences text)) \<le> chunkSize + 1"
    using sentences_total[of "text"] assms(2) by simp
  then have a: "fst ?st = []" by (rule fold_no_close)
  have b: "trim (snd ?st) \<noteq> []"
    using fold_nonblank[of "sentences text" "([], [])"] sentences_nonblank assms(1) by blast
  show ?thesis using a b by (simp add: splitText_def Let_def)
qed

text \<open>
  C9. The first two clauses hold (\<open>splitText_no_sentence\<close>, \<open>splitText_single\<close>); the
  code diverges from the claim where it seeds the next chunk. With an overlap of 5 the
  claim carries over the last \<open>floor(5/10) = 0\<close> words of the closed chunk, but the code
  takes \<open>words.slice(-0)\<close>, which is the whole array: the closed chunk \<open>aa bb\<close> is
  repeated in full at the head of the next chunk. And the words are the pieces of
  \<open>split(' ')\<close> on the untrimmed chunk, so for a closed chunk that ends in a space the
  last \<open>word\<close> is the empty piece after that space: with an overlap of 10 the chunk
  after \<open>Hello world\<close> carries no word over, where the claim carries \<open>world\<close>.
\<close>

theorem splitText_overlap_seed:
  "overlapWords 5 ''aa bb'' = [''aa'', ''bb''] \<and>
   splitText ''aa bb. cc dd ee'' 10 5 = [''aa bb'', ''aa bb  cc dd ee''] \<and>
   overlapWords 10 ''Hello world '' = [''''] \<and>
   splitText ''Hello world . Next one'' 8 10 = [''Hello world'', ''Next one'']"
proof -
  have a: "overlapWords 5 ''aa bb'' = [''aa'', ''bb'']"
    by (simp add: overlapWords_def slice_from_def split_on_def)
  have b: "splitText ''aa bb. cc dd ee'' 10 5 = [''aa bb'', ''aa bb  cc dd ee'']"
    by (simp add: splitText_def sentences_def sentence_end_def split_plus.simps trim_def
        is_space_def splitStep_def closes_def a)
  have c: "overlapWords 10 ''Hello world '' = ['''']"
    by (simp add: overlapWords_def slice_from_def split_on_def)
  have d: "splitText ''Hello world . Next one'' 8 10 = [''Hello world'', ''Next one'']"
    by (simp add: splitText_def sentences_def sentence_end_def split_plus.simps trim_def
        is_space_def splitStep_def closes_def c)
  show ?thesis using a b c d by blast
qed

section \<open>Routing and orchestration\<close>


lemma agents_lookup:
  "get_property agents hint = Own a \<longleftrightarrow> specialization a = hint"
  by (cases a) (auto simp: get_property_def agents_def specialization_def)

lemma agents_lookup_valid:
  "hint \<in> {''packaging'', ''emission'', ''supplyChain'', ''regulatory''}
     \<longleftrightarrow> (\<exists>a. get_property agents hint = Own a)"
  by (auto simp: get_property_def agents_def)

lemma processQuery_unknown:
  assumes "hint \<notin> {''packaging'', ''emission'', ''supplyChain'', ''regulatory''}"
    "hint \<notin> set object_prototype_keys"
  shows "processQuery ev generateContent clk st query hint
           = (st, Inl (Error (''Unknown agent type: '' @ hint)))"
proof -
  have "get_property agents hint = Undefined"
    using assms by (simp add: get_property_def agents_def)
  then show ?thesis by (simp add: processQuery_def)
qed

lemma processQuery_invalid_fails:
  assumes "hint \<notin> {''packaging'', ''emission'', ''supplyChain'', ''regulatory''}"
  shows "\<exists>e. snd (processQuery ev generateContent clk st query hint) = Inl e"
proof (cases "get_property agents hint")
  case (Own a)
  then show ?thesis using assms agents_lookup_valid[of hint] by blast
next
  case (Inherited m)
  then show ?thesis by (simp add: processQuery_def)
next
  case Undefined
  then show ?thesis by (simp add: processQuery_def)
qed

text \<open>
  Whenever \<open>processQuery\<close> returns a response, the hint is the specialization of one of
  the four agents, and the response is the answer that the language model gave under the
  system prompt of that agent: no agent outside the four is ever used, and the text of
  the query takes no part in the choice.
\<close>

lemma processQuery_uses_named_agent:
  assumes "snd (processQuery ev generateContent clk st query hint) = Inr r"
  shows "\<exists>a res. get_property agents hint = Own a \<and> specialization a = hint
           \<and> generateContent a (buildPrompt query (ctx (snd (queryKnowledge ev st query 5)))) = Inr res
           \<and> response r = fst res \<and> agentType r = hint"
proof (cases "get_property agents hint")
  case (Own a)
  then obtain res where
    g: "generateContent a (buildPrompt query (ctx (snd (queryKnowledge ev st query 5)))) = Inr res"
    and r: "response r = fst res" "agentType r = hint"
    using assms
    by (auto simp: processQuery_def agentProcessQuery_def Let_def split: sum.splits)
  then show ?thesis using Own agents_lookup[of hint a] by blast
next
  case (Inherited m)
  then show ?thesis using assms by (simp add: processQuery_def)
next
  case Undefined
  then show ?thesis using assms by (simp add: processQuery_def)
qed

lemma getAgentForAnalysis_default:
  assumes "analysisType \<notin> {''packaging'', ''emissions'', ''supply_chain'', ''regulatory''}"
    "analysisType \<notin> set object_prototype_keys"
  shows "getAgentForAnalysis analysisType = Own Packaging"
  using assms by (simp add: getAgentForAnalysis_def get_property_def agentMap_def)


text \<open>
  C1, as the claim states it, fails: when the call of the language model fails,
  \<open>processQuery\<close> returns no answer at all. The agent logs the error and throws it
  again, and so does the orchestrator.
\<close>

theorem processQuery_llm_failure_raises:
  "snd (processQuery example_env failing_llm example_clock empty_state ''valid question'' ''packaging'')
     = Inl (Error ''request timed out'')"
  by (simp add: processQuery_def get_property_def agents_def agentProcessQuery_def failing_llm_def)

text \<open>
  C1 (amended). For every question and every hint that names one of the four agents, if
  the call of the language model fails (timeout, error or malformed response),
  \<open>processQuery\<close> returns no response: it raises the collaborator's error, unchanged,
  to its caller.
\<close>

theorem processQuery_propagates_llm_failure:
  assumes "get_property agents hint = Own a"
    and "generateContent a (buildPrompt query (ctx (snd (queryKnowledge ev st query 5)))) = Inl e"
  shows "snd (processQuery ev generateContent clk st query hint) = Inl e"
  using assms by (simp add: processQuery_def agentProcessQuery_def Let_def)

theorem processQuery_propagates_llm_failure_witness:
  "get_property agents ''regulatory'' = Own Regulatory \<and>
   failing_llm Regulatory
     (buildPrompt ''What are the latest regulatory requirements?''
        (ctx (snd (queryKnowledge example_env example_state
                     ''What are the latest regulatory requirements?'' 5))))
     = Inl (Error ''request timed out'') \<and>
   snd (processQuery example_env failing_llm example_clock example_state
          ''What are the latest regulatory requirements?'' ''regulatory'')
     = Inl (Error ''request timed out'')"
proof -
  have a: "get_property agents ''regulatory'' = Own Regulatory"
    by (simp add: get_property_def agents_def)
  have b: "failing_llm Regulatory
     (buildPrompt ''What are the latest regulatory requirements?''
        (ctx (snd (queryKnowledge example_env example_state
                     ''What are the latest regulatory requirements?'' 5))))
     = Inl (Error ''request timed out'')"
    by (simp add: failing_llm_def)
  show ?thesis
    using processQuery_propagates_llm_failure[where hint = "''regulatory''" and a = Regulatory
        and generateContent = failing_llm and ev = example_env and st = example_state
        and query = "''What are the latest regulatory requirements?''"
        and e = "Error ''request timed out''" and clk = example_clock] a b
    by simp
qed

section \<open>The agents' analyses\<close>

lemma validate_empty:
  "validateData [] (f # fs) = (False, [Warn (''Missing required field: '' @ f)])"
  by (simp add: validateData_def hasOwnProperty_def)

text \<open>
  C6, as the claim states it, fails: the error that rejects the empty record is a plain
  \<open>Error\<close> whose message names no field. For the emission agent the message is
  \<open>Invalid emission data provided\<close>; none of the required fields \<open>source\<close>,
  \<open>value\<close>, \<open>unit\<close> occurs in it.
\<close>

theorem empty_record_message_names_no_field:
  "snd (Emission_generateInsights example_host (steady example_clock) []) = Inl (Error ''Invalid emission data provided'')
   \<and> \<not> includes_str ''Invalid emission data provided'' ''source''
   \<and> \<not> includes_str ''Invalid emission data provided'' ''value''
   \<and> \<not> includes_str ''Invalid emission data provided'' ''unit''"
  by (simp add: Emission_generateInsights_def validate_empty)

text \<open>
  C6 (amended). For every one of the four specialized agents, \<open>generateInsights\<close> on
  the empty record fails with the agent's fixed message \<open>Invalid ... data provided\<close>
  and produces no insights; the first missing required field is named in a warning
  written to the log, not in the error.
\<close>

theorem empty_record_rejected:
  "Packaging_generateInsights h readings [] =
     ([Warn ''Missing required field: material'',
       LogError ''Error generating packaging insights:'' (Error ''Invalid packaging data provided'')],
      Inl (Error ''Invalid packaging data provided'')) \<and>
   Emission_generateInsights h readings [] =
     ([Warn ''Missing required field: source'',
       LogError ''Error generating emission insights:'' (Error ''Invalid emission data provided'')],
      Inl (Error ''Invalid emission data provided'')) \<and>
   SupplyChain_generateInsights h readings [] =
     ([Warn ''Missing required field: supplier'',
       LogError ''Error generating supply chain insights:'' (Error ''Invalid supplier data provided'')],
      Inl (Error ''Invalid supplier data provided'')) \<and>
   Regulatory_generateInsights h readings [] =
     ([Warn ''Missing required field: regulation'',
       LogError ''Error generating regulatory insights:'' (Error ''Invalid compliance data provided'')],
      Inl (Error ''Invalid compliance data provided''))"
  by (simp add: Packaging_generateInsights_def Emission_generateInsights_def
      SupplyChain_generateInsights_def Regulatory_generateInsights_def validate_empty)

lemma fl_int_numeral: "\<bar>numeral n :: int\<bar> < 2 ^ 53 \<Longrightarrow> fl (numeral n) = numeral n"
  using fl_of_int[of "numeral n"] by simp

lemma js_div_185_1000: "js_div 185 1000 = 6665327448508334 / 2 ^ 55"
proof -
  let ?x = "185 / 1000 :: real"
  have lo: "1 / 2 ^ 3 \<le> \<bar>?x\<bar>" by simp
  have hi: "\<bar>?x\<bar> < 2 / 2 ^ 3" by simp
  have "rne (?x * 2 ^ (52 + 3)) = 6665327448508334"
    by (rule rne_unique) simp_all
  then show ?thesis using fl_eval_lt1[OF lo hi] by (simp add: js_div_eq)
qed

lemma js_mul_185_100: "js_mul (6665327448508334 / 2 ^ 55) 100 = 37 / 2"
proof -
  let ?x = "6665327448508334 / 2 ^ 55 * 100 :: real"
  have lo: "2 ^ 4 \<le> \<bar>?x\<bar>" by simp
  have hi: "\<bar>?x\<bar> < 2 ^ Suc 4" by simp
  have "rne (?x * 2 ^ (52 - 4)) = 5207287069147136"
    by (rule rne_unique) simp_all
  then show ?thesis unfolding js_mul_def using fl_eval_ge1[OF lo hi] by simp
qed

lemma js_sub_1000_815: "js_sub 1000 815 = 185"
  unfolding js_sub_def using fl_of_int[of 185] by simp

lemma reductionPercent_example: "reductionPercent emission_record_with_unit = 37 / 2"
proof -
  have "reductionPercent emission_record_with_unit = js_mul (js_div (js_sub 1000 815) 1000) 100"
    by (simp add: reductionPercent_def emission_record_with_unit_def field_def)
  also have "\<dots> = js_mul (js_div 185 1000) 100" by (simp only: js_sub_1000_815)
  also have "\<dots> = js_mul (6665327448508334 / 2 ^ 55) 100" by (simp only: js_div_185_1000)
  also have "\<dots> = 37 / 2" by (rule js_mul_185_100)
  finally show ?thesis .
qed

text \<open>
  C7, as the claim states it, fails: the record of the claim has no \<open>unit\<close>, which
  the emission agent requires, so the analysis is rejected.
\<close>

theorem emission_record_rejected:
  "Emission_generateInsights example_host (steady example_clock) emission_record
     = ([Warn ''Missing required field: unit'',
         LogError ''Error generating emission insights:'' (Error ''Invalid emission data provided'')],
        Inl (Error ''Invalid emission data provided''))"
  by (simp add: Emission_generateInsights_def validateData_def emission_record_def
      hasOwnProperty_def field_def)

lemma validate_with_unit:
  "validateData emission_record_with_unit [''source'', ''value'', ''unit''] = (True, [])"
  by (simp add: validateData_def emission_record_with_unit_def hasOwnProperty_def field_def)

lemma kpis_example:
  "field (calculateEmissionKPIs clk emission_record_with_unit) ''reductionProgress'' = JNum (37 / 2)"
proof -
  have f: "field emission_record_with_unit ''baseline'' = JNum 1000"
    "field emission_record_with_unit ''value'' = JNum 815"
    "field emission_record_with_unit ''volume'' = JUndefined"
    by (simp_all add: emission_record_with_unit_def field_def)
  show ?thesis
    unfolding calculateEmissionKPIs_def Let_def f reductionPercent_example
    by (simp add: field_def)
qed

lemma analysis_example:
  "field (snd (analyzeEmissionPerformance h emission_record_with_unit)) ''performanceStatus''
     = JStr ''Below Target''"
proof -
  have f: "field emission_record_with_unit ''baseline'' = JNum 1000"
    "field emission_record_with_unit ''value'' = JNum 815"
    "field emission_record_with_unit ''volume'' = JUndefined"
    "field emission_record_with_unit ''region'' = JStr ''Europe''"
    "field emission_record_with_unit ''verified'' = JUndefined"
    by (simp_all add: emission_record_with_unit_def field_def)
  have r: "get_property regionalTargets ''Europe'' = Own (32, js_lit 19.8)"
    by (simp add: get_property_def regionalTargets_def)
  show ?thesis
    unfolding analyzeEmissionPerformance_def Let_def f reductionPercent_example
    by (simp add: r reductionTarget_def field_def assign_def push_def)
qed

text \<open>
  C7 (amended). For the emission record of the claim with the required field \<open>unit\<close>
  added, \<open>{source: "Packaging", value: 815, unit: "tCO2e", baseline: 1000, region:
  "Europe"}\<close>, the emission agent's analysis succeeds, whatever the host and the clock read,
  and returns the KPI \<open>reductionProgress\<close> equal to 18.5 and the performance status
  \<open>Below Target\<close>.
\<close>

theorem emission_with_unit:
  "\<exists>r. snd (Emission_generateInsights h readings emission_record_with_unit) = Inr r
       \<and> get_prop (field r ''kpis'') ''reductionProgress'' = JNum (37 / 2)
       \<and> get_prop (field r ''scopeAnalysis'') ''performanceStatus'' = JStr ''Below Target''"
  using kpis_example[of "readings 0"] analysis_example[of h]
  unfolding Emission_generateInsights_def validate_with_unit Let_def
  by (simp add: field_def get_prop_def)

lemma packaging_clock:
  "without_timestamp (snd (Packaging_generateInsights h c1 d))
     = without_timestamp (snd (Packaging_generateInsights h c2 d))"
  by (simp add: Packaging_generateInsights_def Let_def without_timestamp_def)

lemma supply_chain_clock:
  "without_timestamp (snd (SupplyChain_generateInsights h c1 d))
     = without_timestamp (snd (SupplyChain_generateInsights h c2 d))"
  by (simp add: SupplyChain_generateInsights_def Let_def without_timestamp_def)

lemma emission_kpis_year:
  "fullYear c1 = fullYear c2 \<Longrightarrow> calculateEmissionKPIs c1 d = calculateEmissionKPIs c2 d"
  by (simp add: calculateEmissionKPIs_def)

lemma emission_projections_year:
  "fullYear c1 = fullYear c2 \<Longrightarrow> calculateEmissionProjections c1 d = calculateEmissionProjections c2 d"
  by (simp add: calculateEmissionProjections_def)

lemma emission_parts_no_baseline:
  assumes "\<not> (truthy (field d ''baseline'') \<and> truthy (field d ''value''))"
  shows "calculateEmissionKPIs c1 d = calculateEmissionKPIs c2 d"
    and "calculateEmissionProjections c1 d = calculateEmissionProjections c2 d"
proof -
  consider "\<not> truthy (field d ''baseline'')" | "\<not> truthy (field d ''value'')"
    using assms by blast
  then have "calculateEmissionKPIs c1 d = calculateEmissionKPIs c2 d
      \<and> calculateEmissionProjections c1 d = calculateEmissionProjections c2 d"
  proof cases
    case 1
    then show ?thesis by (simp add: calculateEmissionKPIs_def calculateEmissionProjections_def)
  next
    case 2
    then show ?thesis by (simp add: calculateEmissionKPIs_def calculateEmissionProjections_def)
  qed
  then show "calculateEmissionKPIs c1 d = calculateEmissionKPIs c2 d"
    and "calculateEmissionProjections c1 d = calculateEmissionProjections c2 d"
    by simp_all
qed

lemma emission_clock:
  assumes "\<not> (truthy (field d ''baseline'') \<and> truthy (field d ''value'')) \<or>
    (\<forall>i<2. fullYear (c1 i) = fullYear (c2 i))"
  shows "without_timestamp (snd (Emission_generateInsights h c1 d))
     = without_timestamp (snd (Emission_generateInsights h c2 d))"
proof -
  consider (read) "truthy (field d ''baseline'')" "truthy (field d ''value'')"
    | (no_baseline) "\<not> truthy (field d ''baseline'')"
    | (no_value) "\<not> truthy (field d ''value'')"
    by blast
  then show ?thesis
  proof cases
    case read
    then have "\<forall>i<2. fullYear (c1 i) = fullYear (c2 i)" using assms by blast
    then have y0: "fullYear (c1 0) = fullYear (c2 0)" and y1: "fullYear (c1 1) = fullYear (c2 1)"
      by simp_all
    show ?thesis
      by (simp add: Emission_generateInsights_def Let_def without_timestamp_def read
          emission_kpis_year[OF y0] emission_projections_year[OF y1[unfolded One_nat_def]])
  next
    case no_baseline
    then have n: "\<not> (truthy (field d ''baseline'') \<and> truthy (field d ''value''))" by simp
    show ?thesis
      by (simp add: Emission_generateInsights_def Let_def without_timestamp_def no_baseline
          emission_parts_no_baseline(1)[OF n, of "c1 0" "c2 0"]
          emission_parts_no_baseline(2)[OF n, of "c1 0" "c2 0"])
  next
    case no_value
    then have n: "\<not> (truthy (field d ''baseline'') \<and> truthy (field d ''value''))" by simp
    show ?thesis
      by (simp add: Emission_generateInsights_def Let_def without_timestamp_def no_value
          emission_parts_no_baseline(1)[OF n, of "c1 0" "c2 0"]
          emission_parts_no_baseline(2)[OF n, of "c1 0" "c2 0"])
  qed
qed

lemma regulatory_parts_days:
  assumes "calculateDaysToDeadline h c1 (field d ''deadline'') = calculateDaysToDeadline h c2 (field d ''deadline'')"
  shows "analyzeComplianceStatus h c1 d = analyzeComplianceStatus h c2 d"
    and "calculateComplianceKPIs h c1 d = calculateComplianceKPIs h c2 d"
    and "assessRegulatoryRisk h c1 d = assessRegulatoryRisk h c2 d"
  by (simp_all only: analyzeComplianceStatus_def calculateComplianceKPIs_def assessRegulatoryRisk_def
      assms)

lemma regulatory_parts_no_deadline:
  assumes "\<not> truthy (field d ''deadline'')"
  shows "analyzeComplianceStatus h c1 d = analyzeComplianceStatus h c2 d"
    and "calculateComplianceKPIs h c1 d = calculateComplianceKPIs h c2 d"
    and "assessRegulatoryRisk h c1 d = assessRegulatoryRisk h c2 d"
  using assms
  by (simp_all add: analyzeComplianceStatus_def calculateComplianceKPIs_def assessRegulatoryRisk_def)

lemma regulatory_clock:
  assumes "\<not> truthy (field d ''deadline'') \<or>
    (\<forall>i<3. calculateDaysToDeadline h (c1 i) (field d ''deadline'')
             = calculateDaysToDeadline h (c2 i) (field d ''deadline''))"
  shows "without_timestamp (snd (Regulatory_generateInsights h c1 d))
     = without_timestamp (snd (Regulatory_generateInsights h c2 d))"
proof (cases "truthy (field d ''deadline'')")
  case False
  show ?thesis
    by (simp add: Regulatory_generateInsights_def Let_def without_timestamp_def
        regulatory_parts_no_deadline(1)[OF False, of h "c1 0" "c2 0"]
        regulatory_parts_no_deadline(2)[OF False, of h "c1 (Suc 0)" "c2 (Suc 0)"]
        regulatory_parts_no_deadline(3)[OF False, of h "c1 2" "c2 2"])
next
  case True
  then have e: "\<forall>i<3. calculateDaysToDeadline h (c1 i) (field d ''deadline'')
             = calculateDaysToDeadline h (c2 i) (field d ''deadline'')"
    using assms by blast
  have d0: "calculateDaysToDeadline h (c1 0) (field d ''deadline'')
             = calculateDaysToDeadline h (c2 0) (field d ''deadline'')"
    and d1: "calculateDaysToDeadline h (c1 1) (field d ''deadline'')
             = calculateDaysToDeadline h (c2 1) (field d ''deadline'')"
    and d2: "calculateDaysToDeadline h (c1 2) (field d ''deadline'')
             = calculateDaysToDeadline h (c2 2) (field d ''deadline'')"
    using e by simp_all
  show ?thesis
    by (simp add: Regulatory_generateInsights_def Let_def without_timestamp_def
        regulatory_parts_days(1)[OF d0] regulatory_parts_days(2)[OF d1[unfolded One_nat_def]]
        regulatory_parts_days(3)[OF d2])
qed

lemma days_example:
  "calculateDaysToDeadline example_host example_clock (JStr ''2025-12-31'') = 59"
  "calculateDaysToDeadline example_host next_day_clock (JStr ''2025-12-31'') = 58"
  by (simp_all add: calculateDaysToDeadline_def example_host_def example_clock_def next_day_clock_def
      js_sub_def js_div_eq fl_int_numeral)

lemma days_hour_later:
  "calculateDaysToDeadline example_host hour_later_clock (JStr ''2025-12-31'') = 59"
proof -
  let ?x = "1415 / 24 :: real"
  have lo: "2 ^ 5 \<le> \<bar>?x\<bar>" by simp
  have hi: "\<bar>?x\<bar> < 2 ^ Suc 5" by simp
  have "rne (?x * 2 ^ (52 - 5)) = 8297647750949547"
    by (rule rne_unique) simp_all
  then have f: "fl ?x = 8297647750949547 / 2 ^ 47" using fl_eval_ge1[OF lo hi] by simp
  have c: "\<lceil>8297647750949547 / 2 ^ 47 :: real\<rceil> = 59" by (simp add: ceiling_eq_iff)
  have k: "\<lceil>fl ?x\<rceil> = 59" by (simp only: f c)
  have j: "js_sub 1767139200000 1762045200000 = 5094000000"
    by (simp add: js_sub_def fl_int_numeral)
  show ?thesis
    unfolding calculateDaysToDeadline_def Let_def
    by (simp add: example_host_def hour_later_clock_def js_div_eq j k)
qed

lemma days_moving:
  "calculateDaysToDeadline example_host (moving_clock i) (JStr ''2025-12-31'') = 59"
  by (simp add: moving_clock_def days_example days_hour_later)

lemma compliance_fields:
  "field compliance_record ''regulation'' = JStr ''EU Single-Use Plastics Directive''"
  "field compliance_record ''region'' = JStr ''Europe''"
  "field compliance_record ''complianceStatus'' = JStr ''In Progress''"
  "field compliance_record ''deadline'' = JStr ''2025-12-31''"
  by (simp_all add: compliance_record_def field_def)

lemma compliance_days:
  "field (calculateComplianceKPIs h clk compliance_record) ''daysToDeadline''
     = JNum (calculateDaysToDeadline h clk (JStr ''2025-12-31''))"
proof -
  have r: "findRegulation (JStr ''EU Single-Use Plastics Directive'') (JStr ''Europe'') = Own ''High''"
    by code_simp
  show ?thesis
    unfolding calculateComplianceKPIs_def Let_def compliance_fields r
    by (simp add: field_def)
qed

lemma compliance_valid: "validateData compliance_record [''regulation'', ''region''] = (True, [])"
  by (simp add: validateData_def compliance_record_def hasOwnProperty_def field_def)

lemma compliance_reported:
  "reported_days (without_timestamp (snd (Regulatory_generateInsights h readings compliance_record)))
     = JNum (calculateDaysToDeadline h (readings 1) (JStr ''2025-12-31''))"
  unfolding Regulatory_generateInsights_def compliance_valid Let_def
  by (simp add: without_timestamp_def reported_days_def field_def get_prop_def
      compliance_days[unfolded field_def])

text \<open>
  C8, as the claim states it, fails: the analysis reads the system clock, a hidden
  input. The regulatory agent computes the days to the deadline from the current time,
  so the same record analysed on two consecutive days gives two different results, also
  without their timestamps (59 and 58 days to the deadline).
\<close>

theorem regulatory_analysis_depends_on_clock:
  "without_timestamp (snd (Regulatory_generateInsights example_host (steady example_clock) compliance_record))
     \<noteq> without_timestamp (snd (Regulatory_generateInsights example_host (steady next_day_clock) compliance_record))"
proof
  assume "without_timestamp (snd (Regulatory_generateInsights example_host (steady example_clock) compliance_record))
     = without_timestamp (snd (Regulatory_generateInsights example_host (steady next_day_clock) compliance_record))"
  then have "reported_days (without_timestamp (snd (Regulatory_generateInsights example_host (steady example_clock) compliance_record)))
     = reported_days (without_timestamp (snd (Regulatory_generateInsights example_host (steady next_day_clock) compliance_record)))"
    by simp
  then show False unfolding compliance_reported steady_def days_example by simp
qed

text \<open>
  C8 (amended). For every fixed input record, two calls of an agent's analysis in the
  same runtime (the same number formatting, locale and date parsing, which the analysis
  reads as well) produce identical insights, recommendations, KPIs and confidence, the
  timestamp excluded, in these cases: always for the packaging and the supply chain
  agent; for the emission agent when the record lacks a baseline or a value, or when the
  first two clock readings of the two calls show the same year, reading by reading (the
  year enters the annual reduction rate and the projections, each through a reading of
  its own); for the regulatory agent when the
  record has no deadline, or when the first three clock readings of the two calls give
  the same number of days to the record's deadline, reading by reading (the analysis,
  the KPIs and the risk assessment each read the clock anew).
\<close>

theorem analysis_deterministic_up_to_clock:
  "without_timestamp (snd (Packaging_generateInsights h c1 d))
     = without_timestamp (snd (Packaging_generateInsights h c2 d)) \<and>
   without_timestamp (snd (SupplyChain_generateInsights h c1 d))
     = without_timestamp (snd (SupplyChain_generateInsights h c2 d)) \<and>
   (\<not> (truthy (field d ''baseline'') \<and> truthy (field d ''value'')) \<or>
    (\<forall>i<2. fullYear (c1 i) = fullYear (c2 i)) \<longrightarrow>
      without_timestamp (snd (Emission_generateInsights h c1 d))
        = without_timestamp (snd (Emission_generateInsights h c2 d))) \<and>
   (\<not> truthy (field d ''deadline'') \<or>
    (\<forall>i<3. calculateDaysToDeadline h (c1 i) (field d ''deadline'')
             = calculateDaysToDeadline h (c2 i) (field d ''deadline'')) \<longrightarrow>
      without_timestamp (snd (Regulatory_generateInsights h c1 d))
        = without_timestamp (snd (Regulatory_generateInsights h c2 d)))"
  using packaging_clock[of h c1 d c2] supply_chain_clock[of h c1 d c2]
    emission_clock[of d c1 c2 h] regulatory_clock[of d h c1 c2]
  by blast

theorem analysis_deterministic_up_to_clock_witness:
  "fullYear (steady example_clock 0) = fullYear (steady next_day_clock 0) \<and>
   fullYear (steady example_clock 1) = fullYear (steady next_day_clock 1) \<and>
   without_timestamp (snd (Emission_generateInsights example_host (steady example_clock) emission_record_with_unit))
     = without_timestamp (snd (Emission_generateInsights example_host (steady next_day_clock) emission_record_with_unit)) \<and>
   field compliance_record ''baseline'' = JUndefined \<and>
   without_timestamp (snd (Emission_generateInsights example_host (steady example_clock) compliance_record))
     = without_timestamp (snd (Emission_generateInsights example_host moving_clock compliance_record)) \<and>
   truthy (field compliance_record ''deadline'') \<and>
   calculateDaysToDeadline example_host (steady example_clock 0) (field compliance_record ''deadline'')
     = calculateDaysToDeadline example_host (moving_clock 0) (field compliance_record ''deadline'') \<and>
   calculateDaysToDeadline example_host (steady example_clock 1) (field compliance_record ''deadline'')
     = calculateDaysToDeadline example_host (moving_clock 1) (field compliance_record ''deadline'') \<and>
   calculateDaysToDeadline example_host (steady example_clock 2) (field compliance_record ''deadline'')
     = calculateDaysToDeadline example_host (moving_clock 2) (field compliance_record ''deadline'') \<and>
   moving_clock 0 \<noteq> moving_clock 1 \<and>
   without_timestamp (snd (Regulatory_generateInsights example_host (steady example_clock) compliance_record))
     = without_timestamp (snd (Regulatory_generateInsights example_host moving_clock compliance_record)) \<and>
   field emission_record_with_unit ''deadline'' = JUndefined \<and>
   without_timestamp (snd (Regulatory_generateInsights example_host (steady example_clock) emission_record_with_unit))
     = without_timestamp (snd (Regulatory_generateInsights example_host (steady next_day_clock) emission_record_with_unit))"
proof -
  have y: "\<forall>i<2. fullYear (steady example_clock i) = fullYear (steady next_day_clock i)"
    by (simp add: steady_def example_clock_def next_day_clock_def)
  have t: "truthy (field compliance_record ''deadline'')"
    by (simp add: compliance_fields)
  have d: "\<forall>i<3. calculateDaysToDeadline example_host (steady example_clock i) (field compliance_record ''deadline'')
     = calculateDaysToDeadline example_host (moving_clock i) (field compliance_record ''deadline'')"
    unfolding compliance_fields steady_def days_example days_moving by simp
  have m: "moving_clock 0 \<noteq> moving_clock 1"
    by (simp add: moving_clock_def example_clock_def hour_later_clock_def)
  have u: "field emission_record_with_unit ''deadline'' = JUndefined"
    by (simp add: emission_record_with_unit_def field_def)
  then have n: "\<not> truthy (field emission_record_with_unit ''deadline'')" by simp
  note t1 = analysis_deterministic_up_to_clock[of example_host "steady example_clock"
      emission_record_with_unit "steady next_day_clock"]
  note t2 = analysis_deterministic_up_to_clock[of example_host "steady example_clock"
      compliance_record moving_clock]
  from t1 y have a: "without_timestamp (snd (Emission_generateInsights example_host (steady example_clock) emission_record_with_unit))
     = without_timestamp (snd (Emission_generateInsights example_host (steady next_day_clock) emission_record_with_unit))"
    by blast
  have v: "field compliance_record ''baseline'' = JUndefined"
    by (simp add: compliance_record_def field_def)
  then have w: "\<not> (truthy (field compliance_record ''baseline'') \<and> truthy (field compliance_record ''value''))"
    by simp
  from t2 w have e: "without_timestamp (snd (Emission_generateInsights example_host (steady example_clock) compliance_record))
     = without_timestamp (snd (Emission_generateInsights example_host moving_clock compliance_record))"
    by blast
  from t2 d have b: "without_timestamp (snd (Regulatory_generateInsights example_host (steady example_clock) compliance_record))
     = without_timestamp (snd (Regulatory_generateInsights example_host moving_clock compliance_record))"
    by blast
  from t1 n have c: "without_timestamp (snd (Regulatory_generateInsights example_host (steady example_clock) emission_record_with_unit))
     = without_timestamp (snd (Regulatory_generateInsights example_host (steady next_day_clock) emission_record_with_unit))"
    by blast
  have y0: "fullYear (steady example_clock 0) = fullYear (steady next_day_clock 0)"
    and y1: "fullYear (steady example_clock 1) = fullYear (steady next_day_clock 1)"
    using y by simp_all
  have d0: "calculateDaysToDeadline example_host (steady example_clock 0) (field compliance_record ''deadline'')
     = calculateDaysToDeadline example_host (moving_clock 0) (field compliance_record ''deadline'')"
    and d1: "calculateDaysToDeadline example_host (steady example_clock 1) (field compliance_record ''deadline'')
     = calculateDaysToDeadline example_host (moving_clock 1) (field compliance_record ''deadline'')"
    and d2: "calculateDaysToDeadline example_host (steady example_clock 2) (field compliance_record ''deadline'')
     = calculateDaysToDeadline example_host (moving_clock 2) (field compliance_record ''deadline'')"
    using d by simp_all
  show ?thesis using y0 y1 a v e t d0 d1 d2 m b u c by blast
qed

end
